theory Spec2Isabelle
  imports Complex_Main
begin

section \<open>Effects: exceptions and an external world\<close>

text \<open>
  The notebook \<^verbatim>\<open>scenarios/similarity/11_exploring_hyperparameters.ipynb\<close> is glue code:
  every cell calls into libraries (fastai, numpy, pandas, scrapbook and the repository's
  own \<^verbatim>\<open>utils_cv\<close> package) that sample at random, train on a GPU, mutate objects and
  touch the file system. A call is therefore a function of an external world \<open>'w\<close>
  that returns either the exception it raised or its value, together with the world it
  left behind. The comparative sets, which a helper mutates in place, are handles whose
  state lives in the world.
\<close>

datatype exn =
    AssertionError
  | IndexError
  | KeyError
  | ValueError
  | AttributeError
  | KeyboardInterrupt
  | Raised string

type_synonym ('a, 'w) io = "'w \<Rightarrow> (exn + 'a) \<times> 'w"

definition ret :: "'a \<Rightarrow> ('a, 'w) io" where
  "ret x = (\<lambda>w. (Inr x, w))"

definition raise :: "exn \<Rightarrow> ('a, 'w) io" where
  "raise e = (\<lambda>w. (Inl e, w))"

text \<open>Sequencing of two statements: an exception of the first skips the second.\<close>

definition seq :: "('a, 'w) io \<Rightarrow> ('a \<Rightarrow> ('b, 'w) io) \<Rightarrow> ('b, 'w) io" where
  "seq m f = (\<lambda>w. case m w of (Inl e, w') \<Rightarrow> (Inl e, w') | (Inr x, w') \<Rightarrow> f x w')"

text \<open>A pure computation that may raise, run as a statement.\<close>

definition lift :: "exn + 'a \<Rightarrow> ('a, 'w) io" where
  "lift r = (case r of Inl e \<Rightarrow> raise e | Inr x \<Rightarrow> ret x)"

text \<open>\<^verbatim>\<open>for x in xs: f(x)\<close>, the value of each call discarded.\<close>

fun for_each :: "'a list \<Rightarrow> ('a \<Rightarrow> (unit, 'w) io) \<Rightarrow> (unit, 'w) io" where
  "for_each [] f = ret ()"
| "for_each (x # xs) f = seq (f x) (\<lambda>_. for_each xs f)"

text \<open>Python's \<^verbatim>\<open>xs[i]\<close>: a negative index counts from the end, out of range raises.\<close>

definition py_index :: "'a list \<Rightarrow> int \<Rightarrow> exn + 'a" where
  "py_index xs i =
     (if 0 \<le> i \<and> i < int (length xs) then Inr (xs ! nat i)
      else if i < 0 \<and> - int (length xs) \<le> i then Inr (xs ! nat (int (length xs) + i))
      else Inl IndexError)"

section \<open>numpy's median of a list of integers\<close>

text \<open>
  \<^verbatim>\<open>np.median\<close> returns a float64: the middle element of the sorted data when their
  number is odd, the mean of the two middle elements when it is even, and \<^verbatim>\<open>nan\<close>
  (with a warning, no exception) for no data. Ranks are small integers, for which the
  float64 mean of two of them is exact, so a finite result is a rational number here.
\<close>

datatype npfloat = NaN | Num rat

definition np_median :: "int list \<Rightarrow> npfloat" where
  "np_median xs =
     (let s = sort xs; n = length s
      in if n = 0 then NaN
         else if odd n then Num (of_int (s ! (n div 2)))
         else Num ((of_int (s ! (n div 2 - 1)) + of_int (s ! (n div 2))) / 2))"

section \<open>The retrieval metric\<close>

text \<open>
  A fastai learner, as far as \<^verbatim>\<open>retrieval_rank\<close> reads it: \<^verbatim>\<open>learn.data\<close> with its
  validation set, and \<^verbatim>\<open>learn.model\<close>, a sequence of layer groups (body and head) that
  is indexed twice.
\<close>

record 'ds databunch =
  valid_ds :: 'ds

record ('ds, 'layer) learner =
  data :: "'ds databunch"
  model :: "'layer list list"

datatype DatasetType = Train | Valid | Test | Single | Fix

text \<open>
  The helpers that \<^verbatim>\<open>retrieval_rank\<close> calls are imported from \<^verbatim>\<open>utils_cv.similarity\<close> and
  not defined in the notebook; they are parameters. The feature dictionary is an association list in
  insertion order, which is the order \<^verbatim>\<open>list(valid_features.values())\<close> reads it in.
  \<^verbatim>\<open>cs.compute_distances\<close> mutates the comparative set behind the handle \<open>'cs\<close>.
\<close>

record ('w, 'ds, 'layer, 'cs, 'k, 'x) similarity_lib =
  comparative_set_builder :: "'ds \<Rightarrow> int \<Rightarrow> int \<Rightarrow> ('cs list, 'w) io"
  compute_features_learner ::
    "'ds databunch \<Rightarrow> DatasetType \<Rightarrow> ('ds, 'layer) learner \<Rightarrow> 'layer \<Rightarrow> (('k \<times> 'x list) list, 'w) io"
  compute_distances :: "'cs \<Rightarrow> ('k \<times> 'x list) list \<Rightarrow> (unit, 'w) io"
  positive_image_ranks :: "'cs list \<Rightarrow> (int list, 'w) io"

text \<open>\<^verbatim>\<open>learn.model[1][-2]\<close>\<close>

definition embedding_layer :: "('ds, 'layer) learner \<Rightarrow> exn + 'layer" where
  "embedding_layer learn =
     (case py_index (model learn) 1 of
        Inl e \<Rightarrow> Inl e
      | Inr head \<Rightarrow> py_index head (- 2))"

text \<open>\<^verbatim>\<open>assert len(list(valid_features.values())[0]) == 512\<close>\<close>

definition assert_feature_length :: "('k \<times> 'x list) list \<Rightarrow> (unit, 'w) io" where
  "assert_feature_length valid_features =
     (case valid_features of
        [] \<Rightarrow> raise IndexError
      | kv # _ \<Rightarrow> if length (snd kv) = 512 then ret () else raise AssertionError)"

text \<open>
  \<^verbatim>\<open>
  def retrieval_rank(learn):
      data = learn.data
      comparative_sets = comparative_set_builder(
          data.valid_ds, num_sets=1000, num_negatives=99
      )
      embedding_layer = learn.model[1][-2]
      valid_features = compute_features_learner(
          data, DatasetType.Valid, learn, embedding_layer
      )
      assert len(list(valid_features.values())[0]) == 512
      for cs in comparative_sets:
          cs.compute_distances(valid_features)
      ranks = positive_image_ranks(comparative_sets)
      median_rank = np.median(ranks)
      return median_rank
  \<close>
\<close>

definition retrieval_rank ::
  "('w, 'ds, 'layer, 'cs, 'k, 'x) similarity_lib \<Rightarrow> ('ds, 'layer) learner \<Rightarrow> (npfloat, 'w) io"
where
  "retrieval_rank L learn =
     seq (comparative_set_builder L (valid_ds (data learn)) 1000 99) (\<lambda>comparative_sets.
     seq (lift (embedding_layer learn)) (\<lambda>layer.
     seq (compute_features_learner L (data learn) Valid learn layer) (\<lambda>valid_features.
     seq (assert_feature_length valid_features) (\<lambda>_.
     seq (for_each comparative_sets (\<lambda>cs. compute_distances L cs valid_features)) (\<lambda>_.
     seq (positive_image_ranks L comparative_sets) (\<lambda>ranks.
     ret (np_median ranks)))))))"

section \<open>pandas, as far as the notebook uses it\<close>

text \<open>
  Hyperparameter values are Python scalars of several types. The float literals
  \<^verbatim>\<open>1e-3\<close>, \<^verbatim>\<open>1e-4\<close>, \<^verbatim>\<open>1e-5\<close> are only listed and compared, never computed with,
  so each is written as the rational number its literal denotes.
\<close>

datatype pvalue = PFloat rat | PInt int | PBool bool | PEnum string

type_synonym parameters = "(string \<times> pvalue list) list"

type_synonym permutation = "(string \<times> pvalue) list"

text \<open>
  A dataframe: every row has one label per index level and one cell per column. Its index
  is a MultiIndex of so many levels or a flat Index, which has one. A series is one
  column with the index, or, for \<^verbatim>\<open>df.max()\<close>, one cell per column name.
\<close>

datatype label = LInt int | LStr string | LParams permutation

record dataframe =
  multi_index :: bool
  nlevels :: nat
  columns :: "string list"
  rows :: "(label list \<times> npfloat list) list"

record series =
  s_nlevels :: nat
  s_rows :: "(label list \<times> npfloat) list"

fun finite_cells :: "npfloat list \<Rightarrow> rat list" where
  "finite_cells [] = []"
| "finite_cells (NaN # vs) = finite_cells vs"
| "finite_cells (Num x # vs) = x # finite_cells vs"

text \<open>Reductions skip \<^verbatim>\<open>nan\<close> (\<^verbatim>\<open>skipna=True\<close>) and give \<^verbatim>\<open>nan\<close> for no data.\<close>

definition pd_mean :: "npfloat list \<Rightarrow> npfloat" where
  "pd_mean vs =
     (let fs = finite_cells vs
      in if fs = [] then NaN else Num (sum_list fs / of_nat (length fs)))"

definition pd_max :: "npfloat list \<Rightarrow> npfloat" where
  "pd_max vs =
     (case finite_cells vs of [] \<Rightarrow> NaN | x # xs \<Rightarrow> Num (fold max xs x))"

definition pd_min :: "npfloat list \<Rightarrow> npfloat" where
  "pd_min vs =
     (case finite_cells vs of [] \<Rightarrow> NaN | x # xs \<Rightarrow> Num (fold min xs x))"

definition column_cells :: "dataframe \<Rightarrow> nat \<Rightarrow> npfloat list" where
  "column_cells df j = map (\<lambda>r. snd r ! j) (rows df)"

definition project :: "nat list \<Rightarrow> label list \<Rightarrow> label list" where
  "project levels key = map (\<lambda>l. key ! l) levels"

text \<open>The group keys in the order of their first appearance (\<^verbatim>\<open>sort=False\<close>).\<close>

definition group_keys :: "nat list \<Rightarrow> dataframe \<Rightarrow> label list list" where
  "group_keys levels df = rev (remdups (rev (map (\<lambda>r. project levels (fst r)) (rows df))))"

definition group_cells :: "nat list \<Rightarrow> dataframe \<Rightarrow> label list \<Rightarrow> nat \<Rightarrow> npfloat list" where
  "group_cells levels df k j =
     map (\<lambda>r. snd r ! j) (filter (\<lambda>r. project levels (fst r) = k) (rows df))"

text \<open>
  The mean of every column over the rows that agree on the given index levels, one row
  per group. Grouping by one level leaves a flat Index, by several a MultiIndex.
\<close>

definition group_mean :: "nat list \<Rightarrow> dataframe \<Rightarrow> dataframe" where
  "group_mean levels df =
     \<lparr> multi_index = (2 \<le> length levels),
       nlevels = length levels,
       columns = columns df,
       rows = map (\<lambda>k. (k, map (\<lambda>j. pd_mean (group_cells levels df k j))
                              [0 ..< length (columns df)]))
                  (group_keys levels df) \<rparr>"

text \<open>
  \<^verbatim>\<open>df.mean(level=...)\<close>, the argument being one level number or a tuple of them that is
  not empty: it is given as its first level and the list of the others. On a MultiIndex,
  a level that the index does not have raises IndexError (\<^verbatim>\<open>Too many levels\<close>). A flat
  Index can only be grouped by its level 0: several levels raise ValueError
  (\<^verbatim>\<open>multiple levels only valid with MultiIndex\<close>), and so does a level above 0
  (\<^verbatim>\<open>level > 0 or level < -1 only valid with MultiIndex\<close>).
\<close>

definition df_mean_level :: "nat \<Rightarrow> nat list \<Rightarrow> dataframe \<Rightarrow> exn + dataframe" where
  "df_mean_level l ls df =
     (if multi_index df
      then (if \<exists>k \<in> set (l # ls). nlevels df \<le> k then Inl IndexError
            else Inr (group_mean (l # ls) df))
      else (if ls \<noteq> [] \<or> 0 < l then Inl ValueError
            else Inr (group_mean [0] df)))"

fun column_index :: "string \<Rightarrow> string list \<Rightarrow> nat option" where
  "column_index c [] = None"
| "column_index c (x # xs) =
     (if x = c then Some 0 else map_option Suc (column_index c xs))"

text \<open>\<^verbatim>\<open>df[c]\<close>: a column that does not exist raises KeyError.\<close>

definition df_getitem :: "string \<Rightarrow> dataframe \<Rightarrow> exn + series" where
  "df_getitem c df =
     (case column_index c (columns df) of
        None \<Rightarrow> Inl KeyError
      | Some j \<Rightarrow> Inr \<lparr> s_nlevels = nlevels df,
                        s_rows = map (\<lambda>r. (fst r, snd r ! j)) (rows df) \<rparr>)"

text \<open>\<^verbatim>\<open>df.max()\<close> and \<^verbatim>\<open>df.min()\<close>: one cell per column.\<close>

definition df_max :: "dataframe \<Rightarrow> (string \<times> npfloat) list" where
  "df_max df = map (\<lambda>j. (columns df ! j, pd_max (column_cells df j))) [0 ..< length (columns df)]"

definition df_min :: "dataframe \<Rightarrow> (string \<times> npfloat) list" where
  "df_min df = map (\<lambda>j. (columns df ! j, pd_min (column_cells df j))) [0 ..< length (columns df)]"

text \<open>\<^verbatim>\<open>s.name\<close> on the result: a name that is not there raises AttributeError.\<close>

definition series_attr :: "string \<Rightarrow> (string \<times> npfloat) list \<Rightarrow> exn + npfloat" where
  "series_attr c s = (case map_of s c of None \<Rightarrow> Inl AttributeError | Some v \<Rightarrow> Inr v)"

definition df_len :: "dataframe \<Rightarrow> int" where
  "df_len df = int (length (rows df))"

definition series_list :: "series \<Rightarrow> npfloat list" where
  "series_list s = map snd (s_rows s)"

section \<open>The parameter sweeper\<close>

text \<open>
  Modelled from the spec: the class \<^verbatim>\<open>ParameterSweeper\<close> of
  \<^verbatim>\<open>utils_cv/classification/parameter_sweeper.py\<close>, which the notebook imports and
  does not define. The spec gives it as: "build parameter grid", then "for each
  parameter combination and repetition, train a model and evaluate it with a
  caller-supplied metric function", then "collect results into a table", "a results
  table keyed by (repetition, parameter-permutation, dataset) producing scalar metrics
  (rank, duration, etc.)". The default parameters are the ones the notebook records as
  the value of \<^verbatim>\<open>sweeper.parameters\<close> right after construction.
\<close>

record sweeper =
  metric_name :: string
  parameters :: parameters

definition default_parameters :: parameters where
  "default_parameters =
     [(''learning_rate'', [PFloat (1 / 10000)]),
      (''epochs'', [PInt 15]),
      (''batch_size'', [PInt 16]),
      (''im_size'', [PInt 299]),
      (''architecture'', [PEnum ''Architecture.resnet18'']),
      (''transform'', [PBool True]),
      (''dropout'', [PFloat (1 / 2)]),
      (''weight_decay'', [PFloat (1 / 100)]),
      (''training_schedule'', [PEnum ''TrainingSchedule.head_first_then_body'']),
      (''discriminative_lr'', [PBool False]),
      (''one_cycle_policy'', [PBool True])]"

definition ParameterSweeper :: "string \<Rightarrow> sweeper" where
  "ParameterSweeper name = \<lparr> metric_name = name, parameters = default_parameters \<rparr>"

text \<open>Assignment to one key of the ordered dictionary: a present key keeps its place.\<close>

fun set_parameter :: "string \<Rightarrow> pvalue list \<Rightarrow> parameters \<Rightarrow> parameters" where
  "set_parameter k vs [] = [(k, vs)]"
| "set_parameter k vs ((k', vs') # ps) =
     (if k' = k then (k, vs) # ps else (k', vs') # set_parameter k vs ps)"

text \<open>Modelled from the spec: \<^verbatim>\<open>sweeper.update_parameters(**kwargs)\<close>, absent like the class.\<close>

definition update_parameters :: "(string \<times> pvalue list) list \<Rightarrow> sweeper \<Rightarrow> sweeper" where
  "update_parameters kwargs s =
     s\<lparr> parameters := fold (\<lambda>kv ps. set_parameter (fst kv) (snd kv) ps) kwargs (parameters s) \<rparr>"

text \<open>
  Modelled from the spec: the "parameter grid", one "parameter combination" for every
  choice of one value per parameter.
\<close>

fun param_grid :: "parameters \<Rightarrow> permutation list" where
  "param_grid [] = [[]]"
| "param_grid ((k, vs) # ps) =
     concat (map (\<lambda>v. map (\<lambda>rest. (k, v) # rest) (param_grid ps)) vs)"

text \<open>A loop that collects what each iteration yields.\<close>

fun for_collect :: "'a list \<Rightarrow> ('a \<Rightarrow> ('b list, 'w) io) \<Rightarrow> ('b list, 'w) io" where
  "for_collect [] f = ret []"
| "for_collect (x # xs) f = seq (f x) (\<lambda>ys. seq (for_collect xs f) (\<lambda>zs. ret (ys @ zs)))"

text \<open>
  Modelled from the spec: the body of the loop of \<^verbatim>\<open>sweeper.run\<close>, absent like the class.
  One entry of the results table: train on one dataset with one parameter combination,
  evaluate the trained learner with the metric function, and file the metric and the
  training duration under (repetition, permutation, dataset). Training itself belongs to
  the deep-learning framework and is a parameter.
\<close>

definition sweep_one ::
  "(string \<Rightarrow> permutation \<Rightarrow> (('ds, 'layer) learner \<times> npfloat, 'w) io) \<Rightarrow>
   (('ds, 'layer) learner \<Rightarrow> (npfloat, 'w) io) \<Rightarrow>
   nat \<Rightarrow> permutation \<Rightarrow> string \<Rightarrow> ((label list \<times> npfloat list) list, 'w) io"
where
  "sweep_one train_fct metric_fct rep perm dataset =
     seq (train_fct dataset perm) (\<lambda>trained.
     seq (metric_fct (fst trained)) (\<lambda>metric.
     ret [([LInt (int rep), LParams perm, LStr dataset], [metric, snd trained])]))"

text \<open>
  Modelled from the spec: \<^verbatim>\<open>sweeper.run(datasets, reps, metric_fct)\<close>, absent like the
  class; see the sentences quoted above.
\<close>

definition sweeper_run ::
  "(string \<Rightarrow> permutation \<Rightarrow> (('ds, 'layer) learner \<times> npfloat, 'w) io) \<Rightarrow>
   sweeper \<Rightarrow> string list \<Rightarrow> int \<Rightarrow> (('ds, 'layer) learner \<Rightarrow> (npfloat, 'w) io) \<Rightarrow>
   (dataframe, 'w) io"
where
  "sweeper_run train_fct s datasets reps metric_fct =
     seq (for_collect [0 ..< nat reps] (\<lambda>rep.
            for_collect (param_grid (parameters s)) (\<lambda>perm.
              for_collect datasets (\<lambda>dataset.
                sweep_one train_fct metric_fct rep perm dataset))))
         (\<lambda>table. ret \<lparr> multi_index = True,
                          nlevels = 3,
                          columns = [metric_name s, ''duration''],
                          rows = table \<rparr>)"

section \<open>The notebook\<close>

text \<open>
  What the cells call and the notebook does not define: the dataset addresses of
  \<^verbatim>\<open>utils_cv.classification.data.Urls\<close>, \<^verbatim>\<open>unzip_url\<close>, the training that
  \<^verbatim>\<open>sweeper.run\<close> delegates to fastai, \<^verbatim>\<open>clean_sweeper_df\<close>, \<^verbatim>\<open>plot_sweeper_df\<close>,
  pandas' \<^verbatim>\<open>.unstack().plot(kind='bar', figsize=(12, 6))\<close> and scrapbook's
  \<^verbatim>\<open>sb.glue\<close>. Training returns the learner and the duration it took.
\<close>

datatype scrap = SInt int | SFloat npfloat | SFloats "npfloat list"

record ('w, 'url, 'ds, 'layer) externals =
  fridge_objects_path :: 'url
  fridge_objects_watermark_path :: 'url
  unzip_url :: "'url \<Rightarrow> bool \<Rightarrow> (string, 'w) io"
  train :: "string \<Rightarrow> permutation \<Rightarrow> (('ds, 'layer) learner \<times> npfloat, 'w) io"
  clean_sweeper_df :: "dataframe \<Rightarrow> (dataframe, 'w) io"
  plot_bar :: "series \<Rightarrow> (unit, 'w) io"
  plot_sweeper_df :: "dataframe \<Rightarrow> string \<Rightarrow> (unit, 'w) io"
  glue :: "string \<Rightarrow> scrap \<Rightarrow> (unit, 'w) io"

text \<open>
  \<^verbatim>\<open>
  DATA_PATHS = [unzip_url(Urls.fridge_objects_path, exist_ok=True),
                unzip_url(Urls.fridge_objects_watermark_path, exist_ok=True)]
  REPS = 3
  LEARNING_RATES = [1e-3, 1e-4, 1e-5]
  IM_SIZES = [300, 500]
  EPOCHS = [16]
  DROPOUTS = [0]
  \<close>
\<close>

definition cell_data_paths :: "('w, 'url, 'ds, 'layer) externals \<Rightarrow> (string list, 'w) io" where
  "cell_data_paths X =
     seq (unzip_url X (fridge_objects_path X) True) (\<lambda>p1.
     seq (unzip_url X (fridge_objects_watermark_path X) True) (\<lambda>p2.
     ret [p1, p2]))"

definition REPS :: int where
  "REPS = 3"

definition LEARNING_RATES :: "pvalue list" where
  "LEARNING_RATES = [PFloat (1 / 1000), PFloat (1 / 10000), PFloat (1 / 100000)]"

definition IM_SIZES :: "pvalue list" where
  "IM_SIZES = [PInt 300, PInt 500]"

definition EPOCHS :: "pvalue list" where
  "EPOCHS = [PInt 16]"

definition DROPOUTS :: "pvalue list" where
  "DROPOUTS = [PInt 0]"

text \<open>
  \<^verbatim>\<open>sweeper = ParameterSweeper(metric_name="rank")\<close>, and then
  \<^verbatim>\<open>
  sweeper.update_parameters(learning_rate=LEARNING_RATES, im_size=IM_SIZES,
                            epochs=EPOCHS, dropout=DROPOUTS)
  df = sweeper.run(datasets=DATA_PATHS, reps=REPS, metric_fct=retrieval_rank)
  \<close>
  The sweeper object has one reference, the notebook's variable, so its mutation is a
  new value of that variable.
\<close>

definition swept_sweeper :: sweeper where
  "swept_sweeper =
     update_parameters
       [(''learning_rate'', LEARNING_RATES), (''im_size'', IM_SIZES),
        (''epochs'', EPOCHS), (''dropout'', DROPOUTS)]
       (ParameterSweeper ''rank'')"

definition cell_run ::
  "('w, 'url, 'ds, 'layer) externals \<Rightarrow> ('w, 'ds, 'layer, 'cs, 'k, 'x) similarity_lib \<Rightarrow>
   string list \<Rightarrow> (dataframe, 'w) io"
where
  "cell_run X L data_paths =
     sweeper_run (train X) swept_sweeper data_paths REPS (retrieval_rank L)"

text \<open>\<^verbatim>\<open>df.mean(level=(1,2)).T\<close>, displayed only.\<close>

definition cell_mean_over_runs :: "dataframe \<Rightarrow> (dataframe, 'w) io" where
  "cell_mean_over_runs df = lift (df_mean_level 1 [2] df)"

text \<open>\<^verbatim>\<open>ax = df.mean(level=(1,2))["rank"].unstack().plot(kind='bar', figsize=(12, 6))\<close>\<close>

definition cell_plot_rank :: "('w, 'url, 'ds, 'layer) externals \<Rightarrow> dataframe \<Rightarrow> (unit, 'w) io" where
  "cell_plot_rank X df =
     seq (lift (df_mean_level 1 [2] df)) (\<lambda>m.
     seq (lift (df_getitem ''rank'' m)) (\<lambda>s.
     plot_bar X s))"

text \<open>\<^verbatim>\<open>df.mean(level=(1)).T\<close>, displayed only.\<close>

definition cell_mean_over_datasets :: "dataframe \<Rightarrow> (dataframe, 'w) io" where
  "cell_mean_over_datasets df = lift (df_mean_level 1 [] df)"

text \<open>\<^verbatim>\<open>plot_sweeper_df(df.mean(level=(1)), sort_by="rank")\<close>\<close>

definition cell_plot_sweeper :: "('w, 'url, 'ds, 'layer) externals \<Rightarrow> dataframe \<Rightarrow> (unit, 'w) io" where
  "cell_plot_sweeper X df =
     seq (lift (df_mean_level 1 [] df)) (\<lambda>m. plot_sweeper_df X m ''rank'')"

text \<open>
  \<^verbatim>\<open>
  sb.glue("nr_elements", len(df))
  sb.glue("ranks", list(df.mean(level=(1))["rank"]))
  sb.glue("max_duration", df.max().duration)
  sb.glue("min_duration", df.min().duration)
  \<close>
\<close>

definition cell_glue :: "('w, 'url, 'ds, 'layer) externals \<Rightarrow> dataframe \<Rightarrow> (unit, 'w) io" where
  "cell_glue X df =
     seq (glue X ''nr_elements'' (SInt (df_len df))) (\<lambda>_.
     seq (lift (df_mean_level 1 [] df)) (\<lambda>m.
     seq (lift (df_getitem ''rank'' m)) (\<lambda>s.
     seq (glue X ''ranks'' (SFloats (series_list s))) (\<lambda>_.
     seq (lift (series_attr ''duration'' (df_max df))) (\<lambda>mx.
     seq (glue X ''max_duration'' (SFloat mx)) (\<lambda>_.
     seq (lift (series_attr ''duration'' (df_min df))) (\<lambda>mn.
     glue X ''min_duration'' (SFloat mn))))))))"

text \<open>The cells under "Visualize Results" that follow \<^verbatim>\<open>df = clean_sweeper_df(df)\<close>.\<close>

definition post_process :: "('w, 'url, 'ds, 'layer) externals \<Rightarrow> dataframe \<Rightarrow> (unit, 'w) io" where
  "post_process X df =
     seq (cell_mean_over_runs df) (\<lambda>_.
     seq (cell_plot_rank X df) (\<lambda>_.
     seq (cell_mean_over_datasets df) (\<lambda>_.
     seq (cell_plot_sweeper X df) (\<lambda>_.
     cell_glue X df))))"

text \<open>
  The code cells in the order of the file, each run to its end before the next starts;
  an exception leaves the remaining cells unrun. The value is the final \<^verbatim>\<open>df\<close>.
\<close>

definition notebook ::
  "('w, 'url, 'ds, 'layer) externals \<Rightarrow> ('w, 'ds, 'layer, 'cs, 'k, 'x) similarity_lib \<Rightarrow>
   (dataframe, 'w) io"
where
  "notebook X L =
     seq (cell_data_paths X) (\<lambda>data_paths.
     seq (cell_run X L data_paths) (\<lambda>df.
     seq (clean_sweeper_df X df) (\<lambda>df.
     seq (post_process X df) (\<lambda>_.
     ret df))))"

section \<open>A recording library\<close>

text \<open>
  To run the definitions on concrete inputs, the external calls are instantiated by a
  library that only records each call with its arguments and returns a fixed answer. Its
  world is the log of the calls made so far. A layer is the width of its output; the
  features computed from a layer have that width for the first image and one more for the
  second. A comparative set is its number, and its positive image has rank
  \<open>1 + 3 * number\<close>.
\<close>

datatype event =
    Unzipped string
  | Trained string permutation
  | BuiltSets nat int int
  | Featurized DatasetType nat
  | Distances nat
  | Ranked "nat list"
  | Cleaned
  | PlottedBar
  | PlottedSweeper string
  | Glued string scrap

definition probe_call :: "event \<Rightarrow> 'a \<Rightarrow> ('a, event list) io" where
  "probe_call ev v = (\<lambda>w. (Inr v, w @ [ev]))"

definition probe_similarity ::
  "nat \<Rightarrow> (event list, nat, nat, nat, string, rat) similarity_lib"
where
  "probe_similarity nsets =
     \<lparr> comparative_set_builder =
         (\<lambda>ds num_sets num_negatives.
            probe_call (BuiltSets ds num_sets num_negatives) [0 ..< nsets]),
       compute_features_learner =
         (\<lambda>d t learn layer.
            probe_call (Featurized t layer)
              [(''q.jpg'', replicate layer 0), (''r.jpg'', 0 # replicate layer 0)]),
       compute_distances = (\<lambda>cs features. probe_call (Distances cs) ()),
       positive_image_ranks =
         (\<lambda>sets. probe_call (Ranked sets) (map (\<lambda>c. 1 + 3 * int c) sets)) \<rparr>"

definition probe_learner :: "nat \<Rightarrow> (nat, nat) learner" where
  "probe_learner width = \<lparr> data = \<lparr> valid_ds = 7 \<rparr>, model = [[64], [1024, width, 2]] \<rparr>"

definition probe_externals :: "(event list, string, nat, nat) externals" where
  "probe_externals =
     \<lparr> fridge_objects_path = ''fridge.zip'',
       fridge_objects_watermark_path = ''watermark.zip'',
       unzip_url = (\<lambda>url exist_ok. probe_call (Unzipped url) (take 5 url)),
       train = (\<lambda>path perm. probe_call (Trained path perm) (probe_learner 512, Num 5)),
       clean_sweeper_df = (\<lambda>df. probe_call Cleaned df),
       plot_bar = (\<lambda>s. probe_call PlottedBar ()),
       plot_sweeper_df = (\<lambda>df sort_by. probe_call (PlottedSweeper sort_by) ()),
       glue = (\<lambda>name v. probe_call (Glued name v) ()) \<rparr>"

text \<open>
  A library that insists on the arguments \<^verbatim>\<open>retrieval_rank\<close> is expected to pass for a
  given learner, and raises on any other.
\<close>

definition strict_similarity ::
  "nat \<Rightarrow> (nat, nat) learner \<Rightarrow> (event list, nat, nat, nat, string, rat) similarity_lib"
where
  "strict_similarity nsets learn =
     (probe_similarity nsets)
     \<lparr> comparative_set_builder :=
         (\<lambda>ds num_sets num_negatives.
            if ds = valid_ds (data learn) \<and> num_sets = 1000 \<and> num_negatives = 99
            then comparative_set_builder (probe_similarity nsets) ds num_sets num_negatives
            else raise (Raised ''unexpected arguments'')),
       compute_features_learner :=
         (\<lambda>d t l layer.
            if d = data learn \<and> t = Valid \<and> l = learn \<and> embedding_layer learn = Inr layer
            then compute_features_learner (probe_similarity nsets) d t l layer
            else raise (Raised ''unexpected arguments'')) \<rparr>"

text \<open>
  The parameter combination with a given learning rate and image size, every other
  parameter at the one value it has during the sweep.
\<close>

definition grid_point :: "rat \<Rightarrow> int \<Rightarrow> permutation" where
  "grid_point lr sz =
     [(''learning_rate'', PFloat lr),
      (''epochs'', PInt 16),
      (''batch_size'', PInt 16),
      (''im_size'', PInt sz),
      (''architecture'', PEnum ''Architecture.resnet18''),
      (''transform'', PBool True),
      (''dropout'', PInt 0),
      (''weight_decay'', PFloat (1 / 100)),
      (''training_schedule'', PEnum ''TrainingSchedule.head_first_then_body''),
      (''discriminative_lr'', PBool False),
      (''one_cycle_policy'', PBool True)]"

text \<open>The index of the results table: repetitions, then permutations, then datasets.\<close>

definition sweep_keys :: "nat \<Rightarrow> permutation list \<Rightarrow> string list \<Rightarrow> label list list" where
  "sweep_keys reps grid datasets =
     concat (map (\<lambda>rep.
       concat (map (\<lambda>perm.
         map (\<lambda>dataset. [LInt (int rep), LParams perm, LStr dataset]) datasets) grid))
       [0 ..< reps])"

text \<open>
  What a sweep over the recording library with two comparative sets logs and yields: per
  table entry one training, then the five calls of the metric, whose median of the ranks
  1 and 4 is 5/2; the training always takes 5.
\<close>

definition probe_log :: "nat \<Rightarrow> permutation list \<Rightarrow> string list \<Rightarrow> event list" where
  "probe_log reps grid datasets =
     concat (map (\<lambda>rep.
       concat (map (\<lambda>perm.
         concat (map (\<lambda>dataset.
           [Trained dataset perm, BuiltSets 7 1000 99, Featurized Valid 512,
            Distances 0, Distances 1, Ranked [0, 1]]) datasets)) grid))
       [0 ..< reps])"

definition probe_table :: "nat \<Rightarrow> permutation list \<Rightarrow> string list \<Rightarrow> dataframe" where
  "probe_table reps grid datasets =
     \<lparr> multi_index = True,
       nlevels = 3,
       columns = [''rank'', ''duration''],
       rows = map (\<lambda>key. (key, [Num (5 / 2), Num 5])) (sweep_keys reps grid datasets) \<rparr>"

section \<open>Basic facts about sequencing\<close>

lemma seq_apply:
  "seq m f w = (case m w of (Inl e, w') \<Rightarrow> (Inl e, w') | (Inr x, w') \<Rightarrow> f x w')"
  by (simp add: seq_def)

lemma ret_apply: "ret x w = (Inr x, w)"
  by (simp add: ret_def)

lemma raise_apply: "raise e w = (Inl e, w)"
  by (simp add: raise_def)

lemma lift_apply: "lift r w = (case r of Inl e \<Rightarrow> (Inl e, w) | Inr x \<Rightarrow> (Inr x, w))"
  by (simp add: lift_def ret_def raise_def split: sum.splits)

lemma seq_Inr_elim:
  assumes "seq m f w = (Inr y, w')"
  obtains x w1 where "m w = (Inr x, w1)" and "f x w1 = (Inr y, w')"
  using assms by (auto simp: seq_def split: prod.splits sum.splits)

lemma assert_feature_length_apply:
  "assert_feature_length fs w =
     (case fs of [] \<Rightarrow> (Inl IndexError, w)
      | kv # _ \<Rightarrow> if length (snd kv) = 512 then (Inr (), w) else (Inl AssertionError, w))"
  by (simp add: assert_feature_length_def ret_def raise_def split: list.splits)

lemma retrieval_rank_after_features:
  assumes "comparative_set_builder L (valid_ds (data learn)) 1000 99 w = (Inr sets, w1)"
    and "embedding_layer learn = Inr layer"
    and "compute_features_learner L (data learn) Valid learn layer w1 = (Inr fs, w2)"
  shows "retrieval_rank L learn w =
           seq (assert_feature_length fs) (\<lambda>_.
           seq (for_each sets (\<lambda>cs. compute_distances L cs fs)) (\<lambda>_.
           seq (positive_image_ranks L sets) (\<lambda>ranks.
           ret (np_median ranks)))) w2"
  using assms by (simp add: retrieval_rank_def seq_def lift_def ret_def)

section \<open>Facts about the median\<close>

lemma np_median_odd:
  assumes "odd (length xs)"
  shows "np_median xs = Num (of_int (sort xs ! (length xs div 2)))"
    and "sort xs ! (length xs div 2) \<in> set xs"
proof -
  from assms have pos: "0 < length xs" by (cases xs) auto
  then have "sort xs \<noteq> []" by (metis length_sort length_greater_0_conv)
  then show "np_median xs = Num (of_int (sort xs ! (length xs div 2)))"
    using assms by (simp add: np_median_def Let_def)
  have "length xs div 2 < length (sort xs)" using pos by simp
  then have "sort xs ! (length xs div 2) \<in> set (sort xs)" by (rule nth_mem)
  then show "sort xs ! (length xs div 2) \<in> set xs" by simp
qed

lemma np_median_even:
  assumes "even (length xs)" and "xs \<noteq> []"
  shows "np_median xs =
           Num ((of_int (sort xs ! (length xs div 2 - 1)) + of_int (sort xs ! (length xs div 2))) / 2)"
proof -
  from assms(2) have "sort xs \<noteq> []" by (metis length_sort length_0_conv)
  then show ?thesis using assms(1) by (simp add: np_median_def Let_def)
qed

lemma middle_pair:
  fixes xs :: "int list"
  assumes ev: "even (length xs)" and ne: "xs \<noteq> []"
  defines "a \<equiv> sort xs ! (length xs div 2 - 1)" and "b \<equiv> sort xs ! (length xs div 2)"
  shows "a \<in> set xs" and "b \<in> set xs" and "a \<le> b"
    and "(\<exists>r \<in> set xs. (of_int a + of_int b) / 2 = (of_int r :: rat)) \<longleftrightarrow> a = b"
proof -
  let ?s = "sort xs" and ?n = "length xs"
  from ne have "?n \<noteq> 0" by simp
  moreover from ev have "?n \<noteq> 1" by auto
  ultimately have n2: "2 \<le> ?n" by linarith
  then have ia: "?n div 2 - 1 < length ?s" and ib: "?n div 2 < length ?s" by auto
  have srt: "sorted ?s" by simp
  show a: "a \<in> set xs" using nth_mem [OF ia] by (simp add: a_def)
  show b: "b \<in> set xs" using nth_mem [OF ib] by (simp add: b_def)
  show ab: "a \<le> b" unfolding a_def b_def
    using srt ib by (intro sorted_nth_mono) auto
  show "(\<exists>r \<in> set xs. (of_int a + of_int b) / 2 = (of_int r :: rat)) \<longleftrightarrow> a = b"
  proof
    assume "a = b"
    then have "(of_int a + of_int b) / 2 = (of_int a :: rat)" by simp
    with a show "\<exists>r \<in> set xs. (of_int a + of_int b) / 2 = (of_int r :: rat)" by blast
  next
    assume "\<exists>r \<in> set xs. (of_int a + of_int b) / 2 = (of_int r :: rat)"
    then obtain r where r: "r \<in> set xs" and eq: "(of_int a + of_int b) / 2 = (of_int r :: rat)"
      by blast
    from eq have "(of_int (a + b) :: rat) = of_int (2 * r)" by simp
    then have sum: "a + b = 2 * r" by (simp only: of_int_eq_iff)
    from r have "r \<in> set ?s" by simp
    then obtain i where i: "i < length ?s" and ri: "?s ! i = r"
      unfolding in_set_conv_nth by blast
    show "a = b"
    proof (cases "i \<le> ?n div 2 - 1")
      case True
      then have "r \<le> a" unfolding a_def ri [symmetric]
        using srt ia by (intro sorted_nth_mono) auto
      with sum ab show ?thesis by linarith
    next
      case False
      then have "?n div 2 \<le> i" by linarith
      then have "b \<le> r" unfolding b_def ri [symmetric]
        using srt i by (intro sorted_nth_mono) auto
      with sum ab show ?thesis by linarith
    qed
  qed
qed

section \<open>The recording library at work\<close>

lemma probe_call_apply: "probe_call ev v w = (Inr v, w @ [ev])"
  by (simp add: probe_call_def)

lemma retrieval_rank_apply:
  "retrieval_rank L learn w =
     seq (comparative_set_builder L (valid_ds (data learn)) 1000 99) (\<lambda>comparative_sets.
     seq (lift (embedding_layer learn)) (\<lambda>layer.
     seq (compute_features_learner L (data learn) Valid learn layer) (\<lambda>valid_features.
     seq (assert_feature_length valid_features) (\<lambda>_.
     seq (for_each comparative_sets (\<lambda>cs. compute_distances L cs valid_features)) (\<lambda>_.
     seq (positive_image_ranks L comparative_sets) (\<lambda>ranks.
     ret (np_median ranks))))))) w"
  by (simp add: retrieval_rank_def)

lemmas run_simps =
  seq_apply ret_apply raise_apply lift_apply probe_call_apply retrieval_rank_apply
  assert_feature_length_apply embedding_layer_def py_index_def
  probe_similarity_def strict_similarity_def probe_learner_def probe_externals_def upt_rec

lemmas run_congs = prod.case_cong_weak sum.case_cong_weak list.case_cong_weak if_weak_cong


lemma probe_sets:
  "comparative_set_builder (probe_similarity n) ds a b w = (Inr [0 ..< n], w @ [BuiltSets ds a b])"
  by (simp add: probe_similarity_def probe_call_def)

lemma probe_layer: "embedding_layer (probe_learner width) = Inr width"
  by (simp add: embedding_layer_def py_index_def probe_learner_def)

lemma probe_features:
  "compute_features_learner (probe_similarity n) d t l layer w
     = (Inr ((''q.jpg'', replicate layer 0) # [(''r.jpg'', 0 # replicate layer 0)]),
        w @ [Featurized t layer])"
  by (simp add: probe_similarity_def probe_call_def)

lemma probe_distances:
  "for_each sets (\<lambda>cs. compute_distances (probe_similarity n) cs fs) w
     = (Inr (), w @ map Distances sets)"
  by (induction sets arbitrary: w)
    (simp_all add: ret_apply seq_apply probe_similarity_def probe_call_def)

lemma probe_ranks:
  "positive_image_ranks (probe_similarity n) sets w
     = (Inr (map (\<lambda>c. 1 + 3 * int c) sets), w @ [Ranked sets])"
  by (simp add: probe_similarity_def probe_call_def)

lemma probe_valid_ds: "valid_ds (data (probe_learner width)) = 7"
  by (simp add: probe_learner_def)

lemma embedding_layer_penultimate:
  assumes "model learn = body # (front @ [layer, final]) # others"
  shows "embedding_layer learn = Inr layer"
  using assms by (simp add: embedding_layer_def py_index_def nth_append)

lemma embedding_layer_missing:
  assumes "length (model learn) < 2 \<or> length (model learn ! 1) < 2"
  shows "embedding_layer learn = Inl IndexError"
  using assms by (auto simp: embedding_layer_def py_index_def)

lemma retrieval_rank_same_calls:
  assumes "\<And>v. comparative_set_builder L' (valid_ds (data learn)) 1000 99 v
               = comparative_set_builder L (valid_ds (data learn)) 1000 99 v"
    and "\<And>layer v. embedding_layer learn = Inr layer \<Longrightarrow>
           compute_features_learner L' (data learn) Valid learn layer v
             = compute_features_learner L (data learn) Valid learn layer v"
    and "compute_distances L' = compute_distances L"
    and "positive_image_ranks L' = positive_image_ranks L"
  shows "retrieval_rank L' learn w = retrieval_rank L learn w"
proof (cases "comparative_set_builder L (valid_ds (data learn)) 1000 99 w")
  case (Pair r w1)
  show ?thesis
  proof (cases "embedding_layer learn")
    case (Inl e)
    then show ?thesis
      using assms(1) Pair by (simp add: retrieval_rank_apply seq_apply lift_apply split: sum.splits)
  next
    case (Inr layer)
    then show ?thesis
      using assms(1) assms(2) [OF Inr] assms(3,4) Pair
      by (simp add: retrieval_rank_apply seq_apply lift_apply split: sum.splits)
  qed
qed

section \<open>Claims about the retrieval metric\<close>

text \<open>
  Claim C1, as amended. The claim reads: for every learner, \<^verbatim>\<open>retrieval_rank(learn)\<close> returns
  the median of the ranks that \<^verbatim>\<open>positive_image_ranks\<close> gives for the comparative sets built
  from the learner's validation set, after the distances of each set have been computed.
  That holds on every run on which the helpers return, \<^verbatim>\<open>learn.model[1][-2]\<close> exists and the
  first feature vector has length 512: the value is then \<^verbatim>\<open>np.median\<close> of exactly the list
  \<^verbatim>\<open>positive_image_ranks\<close> returned, and the world is the one that call left.
\<close>

theorem retrieval_rank_returns_median_of_ranks:
  assumes sets: "comparative_set_builder L (valid_ds (data learn)) 1000 99 w = (Inr sets, w1)"
    and layer: "embedding_layer learn = Inr layer"
    and feats: "compute_features_learner L (data learn) Valid learn layer w1
                  = (Inr ((k, v) # features), w2)"
    and width: "length v = 512"
    and dists: "for_each sets (\<lambda>cs. compute_distances L cs ((k, v) # features)) w2 = (Inr (), w3)"
    and ranks: "positive_image_ranks L sets w3 = (Inr ranks, w4)"
  shows "retrieval_rank L learn w = (Inr (np_median ranks), w4)"
  using width dists ranks
  by (simp add: retrieval_rank_after_features [OF sets layer feats]
      assert_feature_length_apply seq_apply ret_apply)


text \<open>The recording library with four comparative sets and a 512-wide embedding.\<close>

theorem retrieval_rank_returns_median_of_ranks_witness:
  "retrieval_rank (probe_similarity 4) (probe_learner 512) []
     = (Inr (Num (11 / 2)),
        [BuiltSets 7 1000 99, Featurized Valid 512,
         Distances 0, Distances 1, Distances 2, Distances 3, Ranked [0, 1, 2, 3]])"
proof -
  have width: "length (replicate 512 (0::rat)) = 512" by simp
  have ranks: "np_median (map (\<lambda>c. 1 + 3 * int c) [0 ..< 4]) = Num (11 / 2)"
    by (simp add: np_median_def upt_rec)
  show ?thesis
    using retrieval_rank_returns_median_of_ranks [OF probe_sets [where n = 4 and w = "[]"] probe_layer [where width = 512]
        probe_features width probe_distances probe_ranks]
    by (simp add: ranks probe_valid_ds) (simp add: upt_rec)
qed

text \<open>
  Claim C1, as stated, fails for a learner whose penultimate layer is 256 wide: the
  assertion on the feature length raises and no median is returned.
\<close>

theorem retrieval_rank_assertion_counterexample:
  "retrieval_rank (probe_similarity 4) (probe_learner 256) []
     = (Inl AssertionError, [BuiltSets 7 1000 99, Featurized Valid 256])"
  by (simp add: run_simps cong: run_congs)

text \<open>
  Claim C8. Once the comparative sets are built and the features computed,
  \<^verbatim>\<open>retrieval_rank\<close> looks at the length of the first feature vector only. If it is not 512
  the function raises AssertionError in the world the feature computation left, so that
  no distance or rank has been computed and no median is returned; if it is 512 the run
  goes on to the distances, the ranks and the median, whatever the other entries of the
  feature dictionary are.
\<close>

theorem retrieval_rank_checks_first_feature_only:
  assumes sets: "comparative_set_builder L (valid_ds (data learn)) 1000 99 w = (Inr sets, w1)"
    and layer: "embedding_layer learn = Inr layer"
    and feats: "compute_features_learner L (data learn) Valid learn layer w1
                  = (Inr ((k, v) # features), w2)"
  shows "(length v \<noteq> 512 \<longrightarrow> retrieval_rank L learn w = (Inl AssertionError, w2))
       \<and> (length v = 512 \<longrightarrow>
            retrieval_rank L learn w =
              seq (for_each sets (\<lambda>cs. compute_distances L cs ((k, v) # features))) (\<lambda>_.
              seq (positive_image_ranks L sets) (\<lambda>ranks.
              ret (np_median ranks))) w2)"
  by (simp add: retrieval_rank_after_features [OF sets layer feats]
      assert_feature_length_apply seq_apply)


text \<open>The recording library with three comparative sets: a 100-wide embedding fails the check, a 512-wide one
  passes it although the second feature vector has length 513.\<close>

theorem retrieval_rank_checks_first_feature_only_witness:
  "retrieval_rank (probe_similarity 3) (probe_learner 100) []
     = (Inl AssertionError, [BuiltSets 7 1000 99, Featurized Valid 100])
   \<and> length (0 # replicate 512 (0::rat)) = 513
   \<and> retrieval_rank (probe_similarity 3) (probe_learner 512) []
     = (Inr (Num 4),
        [BuiltSets 7 1000 99, Featurized Valid 512,
         Distances 0, Distances 1, Distances 2, Ranked [0, 1, 2]])"
proof -
  have narrow: "length (replicate 100 (0::rat)) \<noteq> 512" by simp
  have wide: "length (replicate 512 (0::rat)) = 512" by simp
  have ranks: "np_median (map (\<lambda>c. 1 + 3 * int c) [0 ..< 3]) = Num 4"
    by (simp add: np_median_def upt_rec)
  have fails: "retrieval_rank (probe_similarity 3) (probe_learner 100) []
     = (Inl AssertionError, [BuiltSets 7 1000 99, Featurized Valid 100])"
    using retrieval_rank_checks_first_feature_only [OF probe_sets [where n = 3 and w = "[]"] probe_layer [where width = 100]
        probe_features] narrow
    by (simp add: probe_valid_ds)
  have passes: "retrieval_rank (probe_similarity 3) (probe_learner 512) []
     = (Inr (Num 4),
        [BuiltSets 7 1000 99, Featurized Valid 512,
         Distances 0, Distances 1, Distances 2, Ranked [0, 1, 2]])"
    using retrieval_rank_checks_first_feature_only [OF probe_sets [where n = 3 and w = "[]"] probe_layer [where width = 512]
        probe_features] wide
    by (simp add: probe_valid_ds seq_apply ret_apply probe_distances probe_ranks ranks)
      (simp add: upt_rec)
  from fails passes show ?thesis by simp
qed

text \<open>
  Claim C9. For every learner, \<^verbatim>\<open>retrieval_rank\<close> first calls \<^verbatim>\<open>comparative_set_builder\<close> on
  the validation set with \<^verbatim>\<open>num_sets=1000\<close> and \<^verbatim>\<open>num_negatives=99\<close>: what that call raises, the
  function raises. When the call returns and the model is a body followed by a head whose
  last two layers are \<open>layer\<close> and \<open>final\<close>, the features are computed from exactly
  \<open>layer\<close>, which is \<^verbatim>\<open>learn.model[1][-2]\<close>, and the run goes on from what that call returns;
  when the model has no second group, or the group has fewer than two layers, the
  function raises IndexError right after the sets were built. No other argument of the
  two helpers matters: libraries that agree on these two calls give the same run. The
  constants are literals of the function, whose only argument is the learner.
\<close>

theorem retrieval_rank_fixed_arguments:
  "(comparative_set_builder L (valid_ds (data learn)) 1000 99 w = (Inl e, w1)
      \<longrightarrow> retrieval_rank L learn w = (Inl e, w1))
   \<and> (comparative_set_builder L (valid_ds (data learn)) 1000 99 w = (Inr sets, w1)
      \<and> model learn = body # (front @ [layer, final]) # others
      \<longrightarrow> retrieval_rank L learn w =
            (case compute_features_learner L (data learn) Valid learn layer w1 of
               (Inl e', w2) \<Rightarrow> (Inl e', w2)
             | (Inr valid_features, w2) \<Rightarrow>
                 seq (assert_feature_length valid_features) (\<lambda>_.
                 seq (for_each sets (\<lambda>cs. compute_distances L cs valid_features)) (\<lambda>_.
                 seq (positive_image_ranks L sets) (\<lambda>ranks.
                 ret (np_median ranks)))) w2))
   \<and> (comparative_set_builder L (valid_ds (data learn)) 1000 99 w = (Inr sets, w1)
      \<and> (length (model learn) < 2 \<or> length (model learn ! 1) < 2)
      \<longrightarrow> retrieval_rank L learn w = (Inl IndexError, w1))
   \<and> (model learn = body # (front @ [layer, final]) # others
      \<and> (\<forall>v. comparative_set_builder L' (valid_ds (data learn)) 1000 99 v
               = comparative_set_builder L (valid_ds (data learn)) 1000 99 v)
      \<and> (\<forall>v. compute_features_learner L' (data learn) Valid learn layer v
               = compute_features_learner L (data learn) Valid learn layer v)
      \<and> compute_distances L' = compute_distances L
      \<and> positive_image_ranks L' = positive_image_ranks L
      \<longrightarrow> retrieval_rank L' learn w = retrieval_rank L learn w)"
proof (intro conjI impI)
  assume "comparative_set_builder L (valid_ds (data learn)) 1000 99 w = (Inl e, w1)"
  then show "retrieval_rank L learn w = (Inl e, w1)"
    by (simp add: retrieval_rank_apply seq_apply)
next
  assume "comparative_set_builder L (valid_ds (data learn)) 1000 99 w = (Inr sets, w1)
      \<and> model learn = body # (front @ [layer, final]) # others"
  then show "retrieval_rank L learn w =
            (case compute_features_learner L (data learn) Valid learn layer w1 of
               (Inl e', w2) \<Rightarrow> (Inl e', w2)
             | (Inr valid_features, w2) \<Rightarrow>
                 seq (assert_feature_length valid_features) (\<lambda>_.
                 seq (for_each sets (\<lambda>cs. compute_distances L cs valid_features)) (\<lambda>_.
                 seq (positive_image_ranks L sets) (\<lambda>ranks.
                 ret (np_median ranks)))) w2)"
    using embedding_layer_penultimate [of learn body front layer final others]
    by (simp add: retrieval_rank_def seq_def lift_def ret_def split: prod.splits sum.splits)
next
  assume "comparative_set_builder L (valid_ds (data learn)) 1000 99 w = (Inr sets, w1)
      \<and> (length (model learn) < 2 \<or> length (model learn ! 1) < 2)"
  then show "retrieval_rank L learn w = (Inl IndexError, w1)"
    using embedding_layer_missing [of learn]
    by (simp add: retrieval_rank_apply seq_apply lift_apply)
next
  assume same: "model learn = body # (front @ [layer, final]) # others
      \<and> (\<forall>v. comparative_set_builder L' (valid_ds (data learn)) 1000 99 v
               = comparative_set_builder L (valid_ds (data learn)) 1000 99 v)
      \<and> (\<forall>v. compute_features_learner L' (data learn) Valid learn layer v
               = compute_features_learner L (data learn) Valid learn layer v)
      \<and> compute_distances L' = compute_distances L
      \<and> positive_image_ranks L' = positive_image_ranks L"
  then have layer: "embedding_layer learn = Inr layer"
    using embedding_layer_penultimate [of learn body front layer final others] by simp
  show "retrieval_rank L' learn w = retrieval_rank L learn w"
  proof (rule retrieval_rank_same_calls)
    fix v show "comparative_set_builder L' (valid_ds (data learn)) 1000 99 v
               = comparative_set_builder L (valid_ds (data learn)) 1000 99 v"
      using same by simp
  next
    fix layer' v assume "embedding_layer learn = Inr layer'"
    with layer have "layer' = layer" by simp
    then show "compute_features_learner L' (data learn) Valid learn layer' v
        = compute_features_learner L (data learn) Valid learn layer' v"
      using same by simp
  next
    show "compute_distances L' = compute_distances L"
      and "positive_image_ranks L' = positive_image_ranks L"
      using same by simp_all
  qed
qed

text \<open>
  The recording library: a builder interrupted on (1000, 99) interrupts the metric at
  once; the head \<open>[1024, 512, 2]\<close> has the features computed at 512, not at 1024 or 2; a
  head of one layer raises IndexError after the sets were built; and the library that
  refuses every other argument runs as the one that accepts all.
\<close>

theorem retrieval_rank_fixed_arguments_witness:
  "retrieval_rank
       ((probe_similarity 3) \<lparr> comparative_set_builder := \<lambda>ds num_sets num_negatives.
           if num_sets = 1000 \<and> num_negatives = 99 then raise KeyboardInterrupt
           else probe_call (BuiltSets ds num_sets num_negatives) [0, 1, 2] \<rparr>)
       (probe_learner 512) []
     = (Inl KeyboardInterrupt, [])
   \<and> retrieval_rank (probe_similarity 3) (probe_learner 512) []
     = (Inr (Num 4),
        [BuiltSets 7 1000 99, Featurized Valid 512,
         Distances 0, Distances 1, Distances 2, Ranked [0, 1, 2]])
   \<and> retrieval_rank (probe_similarity 3) \<lparr> data = \<lparr> valid_ds = 7 \<rparr>, model = [[64], [512]] \<rparr> []
     = (Inl IndexError, [BuiltSets 7 1000 99])
   \<and> retrieval_rank (strict_similarity 3 (probe_learner 512)) (probe_learner 512) []
     = retrieval_rank (probe_similarity 3) (probe_learner 512) []
   \<and> comparative_set_builder (strict_similarity 3 (probe_learner 512)) 7 1000 100 []
     = (Inl (Raised ''unexpected arguments''), [])
   \<and> compute_features_learner (strict_similarity 3 (probe_learner 512))
        (data (probe_learner 512)) Valid (probe_learner 512) 1024 []
     = (Inl (Raised ''unexpected arguments''), [])"
proof -
  let ?learn = "probe_learner 512"
  let ?short = "\<lparr> data = \<lparr> valid_ds = 7 \<rparr>, model = [[64], [512::nat]] \<rparr> :: (nat, nat) learner"
  let ?stop = "(probe_similarity 3) \<lparr> comparative_set_builder := \<lambda>ds num_sets num_negatives.
      if num_sets = 1000 \<and> num_negatives = 99 then raise KeyboardInterrupt
      else probe_call (BuiltSets ds num_sets num_negatives) [0, 1, 2] \<rparr>"
  have shape: "model ?learn = [64] # ([1024] @ [512, 2]) # []"
    by (simp add: probe_learner_def)
  have stopped: "comparative_set_builder ?stop (valid_ds (data ?learn)) 1000 99 []
      = (Inl KeyboardInterrupt, [])"
    by (simp add: raise_apply)
  have a: "retrieval_rank ?stop ?learn [] = (Inl KeyboardInterrupt, [])"
    using retrieval_rank_fixed_arguments [where L = ?stop and learn = ?learn and w = "[]" and e = KeyboardInterrupt
        and ?w1.0 = "[]"] stopped by blast
  have built: "comparative_set_builder (probe_similarity 3) (valid_ds (data ?learn)) 1000 99 []
      = (Inr [0, 1, 2], [BuiltSets 7 1000 99])"
    by (simp add: probe_sets probe_valid_ds upt_rec)
  have "retrieval_rank (probe_similarity 3) ?learn []
      = (case compute_features_learner (probe_similarity 3) (data ?learn) Valid ?learn 512
               [BuiltSets 7 1000 99] of
           (Inl e', w2) \<Rightarrow> (Inl e', w2)
         | (Inr valid_features, w2) \<Rightarrow>
             seq (assert_feature_length valid_features) (\<lambda>_.
             seq (for_each [0, 1, 2]
                    (\<lambda>cs. compute_distances (probe_similarity 3) cs valid_features)) (\<lambda>_.
             seq (positive_image_ranks (probe_similarity 3) [0, 1, 2]) (\<lambda>ranks.
             ret (np_median ranks)))) w2)"
    using retrieval_rank_fixed_arguments [where L = "probe_similarity 3" and learn = ?learn and w = "[]"
        and sets = "[0, 1, 2]" and ?w1.0 = "[BuiltSets 7 1000 99]"
        and body = "[64]" and front = "[1024]" and layer = 512 and final = 2 and others = "[]"]
      built shape by blast
  also have "\<dots> = (Inr (Num 4),
         [BuiltSets 7 1000 99, Featurized Valid 512,
          Distances 0, Distances 1, Distances 2, Ranked [0, 1, 2]])"
    by (simp add: run_simps np_median_def cong: run_congs)
  finally have b: "retrieval_rank (probe_similarity 3) ?learn []
      = (Inr (Num 4),
         [BuiltSets 7 1000 99, Featurized Valid 512,
          Distances 0, Distances 1, Distances 2, Ranked [0, 1, 2]])" .
  have built': "comparative_set_builder (probe_similarity 3) (valid_ds (data ?short)) 1000 99 []
      = (Inr [0, 1, 2], [BuiltSets 7 1000 99])"
    by (simp add: probe_sets upt_rec)
  have c: "retrieval_rank (probe_similarity 3) ?short [] = (Inl IndexError, [BuiltSets 7 1000 99])"
    using retrieval_rank_fixed_arguments [where L = "probe_similarity 3" and learn = ?short and w = "[]"
        and sets = "[0, 1, 2]" and ?w1.0 = "[BuiltSets 7 1000 99]"] built'
    by simp
  have same: "retrieval_rank (strict_similarity 3 ?learn) ?learn []
      = retrieval_rank (probe_similarity 3) ?learn []"
    using retrieval_rank_fixed_arguments [where L = "probe_similarity 3" and L' = "strict_similarity 3 ?learn"
        and learn = ?learn and w = "[]"
        and body = "[64]" and front = "[1024]" and layer = 512 and final = 2 and others = "[]"]
      shape
    by (simp add: strict_similarity_def probe_layer)
  have other: "comparative_set_builder (strict_similarity 3 ?learn) 7 1000 100 []
      = (Inl (Raised ''unexpected arguments''), [])"
    "compute_features_learner (strict_similarity 3 ?learn) (data ?learn) Valid ?learn 1024 []
      = (Inl (Raised ''unexpected arguments''), [])"
    by (simp_all add: strict_similarity_def raise_apply probe_layer)
  from a b c same other show ?thesis by (intro conjI)
qed

text \<open>
  Claim C10. On a run that reaches the median, with one rank per comparative set: for an
  odd number of sets the value is the middle element of the sorted ranks, a rank that
  some set has; for an even number it is the mean of the two middle ranks, which is the
  rank of some set exactly when these two are equal, and lies strictly between them (a
  half-integer when they are neighbours) otherwise.
\<close>

theorem retrieval_rank_median_parity:
  assumes sets: "comparative_set_builder L (valid_ds (data learn)) 1000 99 w = (Inr sets, w1)"
    and layer: "embedding_layer learn = Inr layer"
    and feats: "compute_features_learner L (data learn) Valid learn layer w1
                  = (Inr ((k, v) # features), w2)"
    and width: "length v = 512"
    and dists: "for_each sets (\<lambda>cs. compute_distances L cs ((k, v) # features)) w2 = (Inr (), w3)"
    and ranks: "positive_image_ranks L sets w3 = (Inr ranks, w4)"
    and one_each: "length ranks = length sets"
  shows "(odd (length sets) \<longrightarrow>
            retrieval_rank L learn w = (Inr (Num (of_int (sort ranks ! (length ranks div 2)))), w4)
            \<and> sort ranks ! (length ranks div 2) \<in> set ranks)
       \<and> (even (length sets) \<and> sets \<noteq> [] \<longrightarrow>
            (let a = sort ranks ! (length ranks div 2 - 1); b = sort ranks ! (length ranks div 2)
             in retrieval_rank L learn w = (Inr (Num ((of_int a + of_int b) / 2)), w4)
                \<and> a \<in> set ranks \<and> b \<in> set ranks \<and> a \<le> b
                \<and> ((\<exists>r \<in> set ranks. (of_int a + of_int b) / 2 = (of_int r :: rat)) \<longleftrightarrow> a = b)))"
proof -
  have run: "retrieval_rank L learn w = (Inr (np_median ranks), w4)"
    using width dists ranks
    by (simp add: retrieval_rank_after_features [OF sets layer feats]
        assert_feature_length_apply seq_apply ret_apply)
  have odd_case: "retrieval_rank L learn w = (Inr (Num (of_int (sort ranks ! (length ranks div 2)))), w4)
      \<and> sort ranks ! (length ranks div 2) \<in> set ranks" if "odd (length sets)"
    using that np_median_odd [of ranks] run one_each by simp
  have even_case: "(let a = sort ranks ! (length ranks div 2 - 1); b = sort ranks ! (length ranks div 2)
             in retrieval_rank L learn w = (Inr (Num ((of_int a + of_int b) / 2)), w4)
                \<and> a \<in> set ranks \<and> b \<in> set ranks \<and> a \<le> b
                \<and> ((\<exists>r \<in> set ranks. (of_int a + of_int b) / 2 = (of_int r :: rat)) \<longleftrightarrow> a = b))"
    if "even (length sets)" and "sets \<noteq> []"
  proof -
    from that one_each have ev: "even (length ranks)" and ne: "ranks \<noteq> []" by auto
    show ?thesis
      unfolding Let_def
      using np_median_even [OF ev ne] middle_pair [OF ev ne] run by simp
  qed
  from odd_case even_case show ?thesis by blast
qed


text \<open>Three sets have the median 4, a rank of the second set; four sets have 11/2.\<close>

theorem retrieval_rank_median_parity_witness:
  "retrieval_rank (probe_similarity 3) (probe_learner 512) []
     = (Inr (Num 4),
        [BuiltSets 7 1000 99, Featurized Valid 512,
         Distances 0, Distances 1, Distances 2, Ranked [0, 1, 2]])
   \<and> 4 \<in> set [1, 4, 7 :: int]
   \<and> retrieval_rank (probe_similarity 4) (probe_learner 512) []
     = (Inr (Num (11 / 2)),
        [BuiltSets 7 1000 99, Featurized Valid 512,
         Distances 0, Distances 1, Distances 2, Distances 3, Ranked [0, 1, 2, 3]])
   \<and> \<not> (\<exists>r \<in> set [1, 4, 7, 10 :: int]. (of_int 4 + of_int 7) / 2 = (of_int r :: rat))"
proof -
  have width: "length (replicate 512 (0::rat)) = 512" by simp
  have three: "map (\<lambda>c. 1 + 3 * int c) [0 ..< 3] = [1, 4, 7]"
    and four: "map (\<lambda>c. 1 + 3 * int c) [0 ..< 4] = [1, 4, 7, 10]"
    by (simp_all add: upt_rec)
  have one_each: "length (map (\<lambda>c. 1 + 3 * int c) [0 ..< n]) = length [0 ..< n]" for n
    by simp
  have odd_run:
    "retrieval_rank (probe_similarity 3) (probe_learner 512) []
     = (Inr (Num 4),
        [BuiltSets 7 1000 99, Featurized Valid 512,
         Distances 0, Distances 1, Distances 2, Ranked [0, 1, 2]])"
    using retrieval_rank_median_parity [OF probe_sets [where n = 3 and w = "[]"] probe_layer [where width = 512]
        probe_features width probe_distances probe_ranks one_each]
    by (simp add: three probe_valid_ds) (simp add: upt_rec)
  have even_run:
    "retrieval_rank (probe_similarity 4) (probe_learner 512) []
     = (Inr (Num (11 / 2)),
        [BuiltSets 7 1000 99, Featurized Valid 512,
         Distances 0, Distances 1, Distances 2, Distances 3, Ranked [0, 1, 2, 3]])
     \<and> \<not> (\<exists>r \<in> set [1, 4, 7, 10 :: int]. (of_int 4 + of_int 7) / 2 = (of_int r :: rat))"
    using retrieval_rank_median_parity [OF probe_sets [where n = 4 and w = "[]"] probe_layer [where width = 512]
        probe_features width probe_distances probe_ranks one_each]
    by (simp add: four probe_valid_ds) (simp add: upt_rec)
  from odd_run even_run show ?thesis by simp
qed

section \<open>Facts about the sweep\<close>

lemma for_collect_Cons_elim:
  assumes "for_collect (x # xs) f w = (Inr ys, w')"
  obtains ys1 w1 ys2 where "f x w = (Inr ys1, w1)"
    and "for_collect xs f w1 = (Inr ys2, w')" and "ys = ys1 @ ys2"
proof -
  from assms have "seq (f x) (\<lambda>ys. seq (for_collect xs f) (\<lambda>zs. ret (ys @ zs))) w = (Inr ys, w')"
    by simp
  then obtain ys1 w1 where 1: "f x w = (Inr ys1, w1)"
    and rest: "seq (for_collect xs f) (\<lambda>zs. ret (ys1 @ zs)) w1 = (Inr ys, w')"
    by (rule seq_Inr_elim)
  from rest obtain ys2 w2 where 2: "for_collect xs f w1 = (Inr ys2, w2)"
    and "ret (ys1 @ ys2) w2 = (Inr ys, w')"
    by (rule seq_Inr_elim)
  then have "ys = ys1 @ ys2" and "w2 = w'" by (simp_all add: ret_apply)
  with 1 2 that show thesis by blast
qed

lemma for_collect_map:
  assumes "for_collect xs f w = (Inr ys, w')"
    and "\<And>x w zs w'. x \<in> set xs \<Longrightarrow> f x w = (Inr zs, w') \<Longrightarrow> map g zs = h x"
  shows "map g ys = concat (map h xs)"
  using assms
proof (induction xs arbitrary: w ys)
  case Nil
  then show ?case by (simp add: ret_apply)
next
  case (Cons x xs)
  from Cons.prems(1) obtain ys1 w1 ys2 where 1: "f x w = (Inr ys1, w1)"
    and 2: "for_collect xs f w1 = (Inr ys2, w')" and ys: "ys = ys1 @ ys2"
    by (rule for_collect_Cons_elim)
  have "map g ys1 = h x" using Cons.prems(2) 1 by simp
  moreover have "map g ys2 = concat (map h xs)"
    using Cons.IH [OF 2] Cons.prems(2) by simp
  ultimately show ?case by (simp add: ys)
qed

lemma sweep_one_rows:
  assumes "sweep_one train_fct metric_fct rep perm dataset w = (Inr zs, w')"
  shows "map (\<lambda>row. (fst row, length (snd row))) zs
           = [([LInt (int rep), LParams perm, LStr dataset], 2)]"
proof -
  from assms obtain trained w1 where
    "seq (metric_fct (fst trained)) (\<lambda>metric.
       ret [([LInt (int rep), LParams perm, LStr dataset], [metric, snd trained])]) w1
     = (Inr zs, w')"
    unfolding sweep_one_def by (rule seq_Inr_elim)
  then obtain metric w2 where
    "ret [([LInt (int rep), LParams perm, LStr dataset], [metric, snd trained])] w2 = (Inr zs, w')"
    by (rule seq_Inr_elim)
  then show ?thesis by (auto simp: ret_apply)
qed

lemma sweeper_run_table:
  assumes "sweeper_run train_fct s datasets reps metric_fct w = (Inr df, w')"
  shows "nlevels df = 3" and "columns df = [metric_name s, ''duration'']"
    and "map (\<lambda>row. (fst row, length (snd row))) (rows df)
           = map (\<lambda>key. (key, 2)) (sweep_keys (nat reps) (param_grid (parameters s)) datasets)"
    and "multi_index df"
proof -
  let ?shape = "\<lambda>row :: label list \<times> npfloat list. (fst row, length (snd row))"
  from assms obtain table w1 where
    loops: "for_collect [0 ..< nat reps] (\<lambda>rep.
              for_collect (param_grid (parameters s)) (\<lambda>perm.
                for_collect datasets (\<lambda>dataset.
                  sweep_one train_fct metric_fct rep perm dataset))) w = (Inr table, w1)"
    and "ret \<lparr> multi_index = True, nlevels = 3, columns = [metric_name s, ''duration''],
             rows = table \<rparr> w1
           = (Inr df, w')"
    unfolding sweeper_run_def by (rule seq_Inr_elim)
  then have df: "df = \<lparr> multi_index = True, nlevels = 3,
      columns = [metric_name s, ''duration''], rows = table \<rparr>"
    by (simp add: ret_apply)
  show "nlevels df = 3" and "columns df = [metric_name s, ''duration'']" and "multi_index df"
    by (simp_all add: df)
  have inner: "map ?shape zs = map (\<lambda>dataset. ([LInt (int rep), LParams perm, LStr dataset], 2)) datasets"
    if "for_collect datasets (\<lambda>dataset. sweep_one train_fct metric_fct rep perm dataset) v
          = (Inr zs, v')" for rep perm v zs v'
  proof -
    have "map ?shape zs
        = concat (map (\<lambda>dataset. [([LInt (int rep), LParams perm, LStr dataset], 2)]) datasets)"
      using that by (rule for_collect_map) (rule sweep_one_rows)
    then show ?thesis by (simp add: concat_map_singleton)
  qed
  have middle: "map ?shape zs
      = concat (map (\<lambda>perm. map (\<lambda>dataset. ([LInt (int rep), LParams perm, LStr dataset], 2)) datasets)
          (param_grid (parameters s)))"
    if "for_collect (param_grid (parameters s)) (\<lambda>perm.
          for_collect datasets (\<lambda>dataset. sweep_one train_fct metric_fct rep perm dataset)) v
          = (Inr zs, v')" for rep v zs v'
    using that by (rule for_collect_map) (rule inner)
  have "map ?shape table
      = concat (map (\<lambda>rep.
          concat (map (\<lambda>perm.
            map (\<lambda>dataset. ([LInt (int rep), LParams perm, LStr dataset], 2)) datasets)
            (param_grid (parameters s)))) [0 ..< nat reps])"
    using loops by (rule for_collect_map) (rule middle)
  then show "map ?shape (rows df)
      = map (\<lambda>key. (key, 2)) (sweep_keys (nat reps) (param_grid (parameters s)) datasets)"
    by (simp add: df sweep_keys_def map_concat comp_def)
qed

lemma sweep_keys_member:
  "key \<in> set (sweep_keys reps grid datasets) \<longleftrightarrow>
     (\<exists>rep < reps. \<exists>perm \<in> set grid. \<exists>dataset \<in> set datasets.
        key = [LInt (int rep), LParams perm, LStr dataset])"
proof
  assume "key \<in> set (sweep_keys reps grid datasets)"
  then show "\<exists>rep < reps. \<exists>perm \<in> set grid. \<exists>dataset \<in> set datasets.
        key = [LInt (int rep), LParams perm, LStr dataset]"
    by (auto simp: sweep_keys_def)
next
  assume "\<exists>rep < reps. \<exists>perm \<in> set grid. \<exists>dataset \<in> set datasets.
        key = [LInt (int rep), LParams perm, LStr dataset]"
  then obtain rep perm dataset where rep: "rep \<in> {0 ..< reps}" and perm: "perm \<in> set grid"
    and dataset: "dataset \<in> set datasets"
    and key: "key = [LInt (int rep), LParams perm, LStr dataset]" by auto
  from dataset key
  have "key \<in> (\<lambda>dataset. [LInt (int rep), LParams perm, LStr dataset]) ` set datasets"
    by blast
  with perm
  have "\<exists>p \<in> set grid. key \<in> (\<lambda>dataset. [LInt (int rep), LParams p, LStr dataset]) ` set datasets"
    by blast
  with rep
  have "\<exists>r \<in> {0 ..< reps}. \<exists>p \<in> set grid.
          key \<in> (\<lambda>dataset. [LInt (int r), LParams p, LStr dataset]) ` set datasets"
    by blast
  then show "key \<in> set (sweep_keys reps grid datasets)"
    by (simp add: sweep_keys_def)
qed

lemma length_sweep_keys:
  "length (sweep_keys reps grid datasets) = reps * (length grid * length datasets)"
proof -
  have inner: "length (concat (map (\<lambda>perm. map (f perm) datasets) grid))
      = length grid * length datasets" for f :: "permutation \<Rightarrow> string \<Rightarrow> label list"
    by (induction grid) simp_all
  show ?thesis
    unfolding sweep_keys_def by (induction reps) (simp_all add: inner)
qed

lemma grid_point_eq: "grid_point a b = grid_point a' b' \<longleftrightarrow> a = a' \<and> b = b'"
  by (auto simp: grid_point_def)

lemma swept_parameters:
  "parameters swept_sweeper =
     [(''learning_rate'', LEARNING_RATES),
      (''epochs'', EPOCHS),
      (''batch_size'', [PInt 16]),
      (''im_size'', IM_SIZES),
      (''architecture'', [PEnum ''Architecture.resnet18'']),
      (''transform'', [PBool True]),
      (''dropout'', DROPOUTS),
      (''weight_decay'', [PFloat (1 / 100)]),
      (''training_schedule'', [PEnum ''TrainingSchedule.head_first_then_body'']),
      (''discriminative_lr'', [PBool False]),
      (''one_cycle_policy'', [PBool True])]"
  by (simp add: swept_sweeper_def update_parameters_def ParameterSweeper_def
      default_parameters_def)

lemma swept_grid:
  "param_grid (parameters swept_sweeper) =
     [grid_point (1 / 1000) 300, grid_point (1 / 1000) 500,
      grid_point (1 / 10000) 300, grid_point (1 / 10000) 500,
      grid_point (1 / 100000) 300, grid_point (1 / 100000) 500]"
  by (simp add: swept_parameters LEARNING_RATES_def IM_SIZES_def EPOCHS_def DROPOUTS_def
      grid_point_def)

lemma swept_metric_name: "metric_name swept_sweeper = ''rank''"
  by (simp add: swept_sweeper_def update_parameters_def ParameterSweeper_def)

lemma count_sweep_keys:
  "length (filter (\<lambda>key. tl key = [LParams perm, LStr d]) (sweep_keys reps grid datasets))
     = reps * (count_list grid perm * count_list datasets d)"
proof -
  let ?P = "\<lambda>key. tl key = [LParams perm, LStr d]"
  have inner: "length (filter (?P \<circ> (\<lambda>dataset. [LInt r, LParams p, LStr dataset])) datasets)
      = (if p = perm then count_list datasets d else 0)" for r p
    by (induction datasets) auto
  have middle: "length (filter ?P (concat (map (\<lambda>p.
        map (\<lambda>dataset. [LInt r, LParams p, LStr dataset]) datasets) grid)))
      = count_list grid perm * count_list datasets d" for r
    by (induction grid) (simp_all add: inner)
  show ?thesis
    unfolding sweep_keys_def by (induction reps) (simp_all add: middle)
qed

lemma for_collect_probe:
  assumes "\<And>x w. x \<in> set xs \<Longrightarrow> f x w = (Inr (out x), w @ ev x)"
  shows "for_collect xs f w = (Inr (concat (map out xs)), w @ concat (map ev xs))"
  using assms
proof (induction xs arbitrary: w)
  case Nil
  show ?case by (simp add: ret_apply)
next
  case (Cons x xs)
  have 1: "f x w = (Inr (out x), w @ ev x)" using Cons.prems by simp
  have 2: "for_collect xs f (w @ ev x)
      = (Inr (concat (map out xs)), (w @ ev x) @ concat (map ev xs))"
    using Cons.prems by (intro Cons.IH) simp
  show ?case by (simp add: seq_apply ret_apply 1 2)
qed

lemma probe_metric:
  "retrieval_rank (probe_similarity 2) (probe_learner 512) w
     = (Inr (Num (5 / 2)),
        w @ [BuiltSets 7 1000 99, Featurized Valid 512, Distances 0, Distances 1, Ranked [0, 1]])"
  by (simp add: run_simps np_median_def cong: run_congs)

lemma probe_sweep_one:
  "sweep_one (train probe_externals) (retrieval_rank (probe_similarity 2)) rep perm dataset w
     = (Inr [([LInt (int rep), LParams perm, LStr dataset], [Num (5 / 2), Num 5])],
        w @ [Trained dataset perm, BuiltSets 7 1000 99, Featurized Valid 512,
             Distances 0, Distances 1, Ranked [0, 1]])"
  by (simp add: sweep_one_def seq_apply ret_apply probe_externals_def probe_call_apply probe_metric)

lemma probe_sweep:
  "sweeper_run (train probe_externals) swept_sweeper datasets REPS
       (retrieval_rank (probe_similarity 2)) w
     = (Inr (probe_table 3 (param_grid (parameters swept_sweeper)) datasets),
        w @ probe_log 3 (param_grid (parameters swept_sweeper)) datasets)"
proof -
  let ?grid = "param_grid (parameters swept_sweeper)"
  let ?row = "\<lambda>rep perm dataset. [([LInt (int rep), LParams perm, LStr dataset], [Num (5 / 2), Num 5])]"
  let ?ev = "\<lambda>perm dataset. [Trained dataset perm, BuiltSets 7 1000 99, Featurized Valid 512,
            Distances 0, Distances 1, Ranked [0, 1]]"
  have inner: "for_collect datasets (\<lambda>dataset.
        sweep_one (train probe_externals) (retrieval_rank (probe_similarity 2)) rep perm dataset) v
      = (Inr (concat (map (?row rep perm) datasets)), v @ concat (map (?ev perm) datasets))"
    for rep perm v
    by (rule for_collect_probe) (rule probe_sweep_one)
  have middle: "for_collect ?grid (\<lambda>perm. for_collect datasets (\<lambda>dataset.
        sweep_one (train probe_externals) (retrieval_rank (probe_similarity 2)) rep perm dataset)) v
      = (Inr (concat (map (\<lambda>perm. concat (map (?row rep perm) datasets)) ?grid)),
         v @ concat (map (\<lambda>perm. concat (map (?ev perm) datasets)) ?grid))"
    for rep v
    by (rule for_collect_probe) (rule inner)
  have outer: "for_collect [0 ..< 3] (\<lambda>rep. for_collect ?grid (\<lambda>perm. for_collect datasets (\<lambda>dataset.
        sweep_one (train probe_externals) (retrieval_rank (probe_similarity 2)) rep perm dataset))) w
      = (Inr (concat (map (\<lambda>rep. concat (map (\<lambda>perm. concat (map (?row rep perm) datasets)) ?grid))
            [0 ..< 3])),
         w @ concat (map (\<lambda>rep. concat (map (\<lambda>perm. concat (map (?ev perm) datasets)) ?grid))
            [0 ..< 3]))"
    by (rule for_collect_probe) (rule middle)
  have rows: "concat (map (\<lambda>rep. concat (map (\<lambda>perm. concat (map (?row rep perm) datasets)) ?grid))
            [0 ..< 3])
      = map (\<lambda>key. (key, [Num (5 / 2), Num 5])) (sweep_keys 3 ?grid datasets)"
    by (simp add: sweep_keys_def map_concat comp_def concat_map_singleton)
  show ?thesis
    unfolding sweeper_run_def REPS_def
    by (simp add: seq_apply ret_apply outer [simplified] rows [simplified]
        probe_table_def probe_log_def swept_metric_name)
qed

lemma notebook_apply:
  "notebook X L w =
     seq (cell_data_paths X) (\<lambda>data_paths.
     seq (cell_run X L data_paths) (\<lambda>df.
     seq (clean_sweeper_df X df) (\<lambda>df.
     seq (post_process X df) (\<lambda>_.
     ret df)))) w"
  by (simp add: notebook_def)

lemma cell_data_paths_value:
  assumes "unzip_url X (fridge_objects_path X) True w0 = (Inr p1, w1)"
    and "unzip_url X (fridge_objects_watermark_path X) True w1 = (Inr p2, w2)"
  shows "cell_data_paths X w0 = (Inr [p1, p2], w2)"
  using assms by (simp add: cell_data_paths_def seq_apply ret_apply)

lemma cell_run_shape:
  assumes "cell_run X L paths w = (Inr df, w')"
  shows "nlevels df = 3" and "columns df = [''rank'', ''duration'']"
    and "map (\<lambda>row. (fst row, length (snd row))) (rows df)
           = map (\<lambda>key. (key, 2)) (sweep_keys 3 (param_grid (parameters swept_sweeper)) paths)"
    and "multi_index df"
  using sweeper_run_table [OF assms [unfolded cell_run_def]]
  by (simp_all add: swept_metric_name REPS_def)

lemma cell_run_keys:
  assumes "cell_run X L paths w = (Inr df, w')"
  shows "map fst (rows df) = sweep_keys 3 (param_grid (parameters swept_sweeper)) paths"
proof -
  have "map fst (map (\<lambda>row. (fst row, length (snd row))) (rows df))
      = map fst (map (\<lambda>key. (key, 2 :: nat))
          (sweep_keys 3 (param_grid (parameters swept_sweeper)) paths))"
    by (simp only: cell_run_shape(3) [OF assms])
  then show ?thesis by (simp add: comp_def)
qed

lemma probe_unzip:
  "unzip_url probe_externals url exist_ok w = (Inr (take 5 url), w @ [Unzipped url])"
  by (simp add: probe_externals_def probe_call_apply)

lemma probe_urls:
  "fridge_objects_path probe_externals = ''fridge.zip''"
  "fridge_objects_watermark_path probe_externals = ''watermark.zip''"
  by (simp_all add: probe_externals_def)

lemma probe_clean: "clean_sweeper_df probe_externals df w = (Inr df, w @ [Cleaned])"
  by (simp add: probe_externals_def probe_call_apply)

lemma probe_cell_run:
  "cell_run probe_externals (probe_similarity 2) datasets w
     = (Inr (probe_table 3 (param_grid (parameters swept_sweeper)) datasets),
        w @ probe_log 3 (param_grid (parameters swept_sweeper)) datasets)"
  by (simp add: cell_run_def probe_sweep)

section \<open>Facts about the cells\<close>

lemma group_mean_shape:
  "nlevels (group_mean levels df) = length levels"
  "columns (group_mean levels df) = columns df"
  "multi_index (group_mean levels df) \<longleftrightarrow> 2 \<le> length levels"
  by (simp_all add: group_mean_def)

lemma mean_level_multi:
  assumes "multi_index df" and "\<forall>k \<in> set (l # ls). k < nlevels df"
  shows "df_mean_level l ls df = Inr (group_mean (l # ls) df)"
  using assms by (auto simp: df_mean_level_def)

lemma mean_level_too_few:
  assumes "multi_index df" and "k \<in> set (l # ls)" and "nlevels df \<le> k"
  shows "df_mean_level l ls df = Inl IndexError"
  using assms by (auto simp: df_mean_level_def)

lemma mean_level_flat:
  assumes "\<not> multi_index df" and "ls \<noteq> [] \<or> 0 < l"
  shows "df_mean_level l ls df = Inl ValueError"
  using assms by (auto simp: df_mean_level_def)

lemma getitem_rank:
  assumes "columns df = [''rank'', ''duration'']"
  shows "df_getitem ''rank'' df
           = Inr \<lparr> s_nlevels = nlevels df, s_rows = map (\<lambda>r. (fst r, snd r ! 0)) (rows df) \<rparr>"
  using assms by (simp add: df_getitem_def)

lemma duration_attr:
  assumes "columns df = [''rank'', ''duration'']"
  shows "series_attr ''duration'' (df_max df) = Inr (pd_max (column_cells df 1))"
    and "series_attr ''duration'' (df_min df) = Inr (pd_min (column_cells df 1))"
  using assms by (simp_all add: series_attr_def df_max_def df_min_def upt_rec)

lemma seq_lift_value: "seq (lift (Inr x)) f = f x"
  by (rule ext) (simp add: seq_def lift_def ret_def)

lemma rank_series_list:
  "series_list \<lparr> s_nlevels = n, s_rows = map (\<lambda>r. (fst r, snd r ! 0)) rs \<rparr>
     = map (\<lambda>r. snd r ! 0) rs"
  by (simp add: series_list_def comp_def)

lemma cells_defined:
  assumes multi: "multi_index df" and levels: "nlevels df = 3"
    and cols: "columns df = [''rank'', ''duration'']"
  shows "cell_mean_over_runs df v = (Inr (group_mean [1, 2] df), v)"
    and "cell_plot_rank X df v
           = plot_bar X \<lparr> s_nlevels = 2,
                           s_rows = map (\<lambda>r. (fst r, snd r ! 0)) (rows (group_mean [1, 2] df)) \<rparr> v"
    and "cell_mean_over_datasets df v = (Inr (group_mean [1] df), v)"
    and "cell_plot_sweeper X df v = plot_sweeper_df X (group_mean [1] df) ''rank'' v"
    and "cell_glue X df v =
           seq (glue X ''nr_elements'' (SInt (int (length (rows df))))) (\<lambda>_.
           seq (glue X ''ranks''
                  (SFloats (map (\<lambda>r. snd r ! 0) (rows (group_mean [1] df))))) (\<lambda>_.
           seq (glue X ''max_duration'' (SFloat (pd_max (column_cells df 1)))) (\<lambda>_.
           glue X ''min_duration'' (SFloat (pd_min (column_cells df 1)))))) v"
proof -
  have m12: "df_mean_level 1 [2] df = Inr (group_mean [1, 2] df)"
    using multi levels by (intro mean_level_multi) simp_all
  have m1: "df_mean_level 1 [] df = Inr (group_mean [1] df)"
    using multi levels by (intro mean_level_multi) simp_all
  have r12: "df_getitem ''rank'' (group_mean [1, 2] df)
      = Inr \<lparr> s_nlevels = 2, s_rows = map (\<lambda>r. (fst r, snd r ! 0)) (rows (group_mean [1, 2] df)) \<rparr>"
    using getitem_rank [of "group_mean [1, 2] df"] cols by (simp add: group_mean_shape)
  have r1: "df_getitem ''rank'' (group_mean [1] df)
      = Inr \<lparr> s_nlevels = 1, s_rows = map (\<lambda>r. (fst r, snd r ! 0)) (rows (group_mean [1] df)) \<rparr>"
    using getitem_rank [of "group_mean [1] df"] cols by (simp add: group_mean_shape)
  show "cell_mean_over_runs df v = (Inr (group_mean [1, 2] df), v)"
    by (simp only: cell_mean_over_runs_def m12 lift_apply sum.case)
  show "cell_plot_rank X df v
           = plot_bar X \<lparr> s_nlevels = 2,
                           s_rows = map (\<lambda>r. (fst r, snd r ! 0)) (rows (group_mean [1, 2] df)) \<rparr> v"
    by (simp only: cell_plot_rank_def m12 r12 seq_lift_value)
  show "cell_mean_over_datasets df v = (Inr (group_mean [1] df), v)"
    by (simp only: cell_mean_over_datasets_def m1 lift_apply sum.case)
  show "cell_plot_sweeper X df v = plot_sweeper_df X (group_mean [1] df) ''rank'' v"
    by (simp only: cell_plot_sweeper_def m1 seq_lift_value)
  show "cell_glue X df v =
           seq (glue X ''nr_elements'' (SInt (int (length (rows df))))) (\<lambda>_.
           seq (glue X ''ranks''
                  (SFloats (map (\<lambda>r. snd r ! 0) (rows (group_mean [1] df))))) (\<lambda>_.
           seq (glue X ''max_duration'' (SFloat (pd_max (column_cells df 1)))) (\<lambda>_.
           glue X ''min_duration'' (SFloat (pd_min (column_cells df 1)))))) v"
    by (simp only: cell_glue_def m1 r1 duration_attr [OF cols] seq_lift_value df_len_def
        rank_series_list)
qed

lemma mean_over_runs_undefined:
  assumes "nlevels d < 3"
  shows "cell_mean_over_runs d v
           = (Inl (if multi_index d then IndexError else ValueError), v)"
proof (cases "multi_index d")
  case True
  then have "df_mean_level 1 [2] d = Inl IndexError"
    using assms by (intro mean_level_too_few [of d 2]) simp_all
  with True show ?thesis by (simp only: cell_mean_over_runs_def lift_apply sum.case if_True)
next
  case False
  then have "df_mean_level 1 [2] d = Inl ValueError"
    by (intro mean_level_flat) simp_all
  with False show ?thesis by (simp only: cell_mean_over_runs_def lift_apply sum.case if_False)
qed

lemma post_process_apply:
  "post_process X df w =
     seq (cell_mean_over_runs df) (\<lambda>_.
     seq (cell_plot_rank X df) (\<lambda>_.
     seq (cell_mean_over_datasets df) (\<lambda>_.
     seq (cell_plot_sweeper X df) (\<lambda>_.
     cell_glue X df)))) w"
  by (simp add: post_process_def)

lemma probe_plots:
  "plot_bar probe_externals s w = (Inr (), w @ [PlottedBar])"
  "plot_sweeper_df probe_externals m sort_by w = (Inr (), w @ [PlottedSweeper sort_by])"
  "glue probe_externals name v w = (Inr (), w @ [Glued name v])"
  by (simp_all add: probe_externals_def probe_call_apply)

lemma probe_table_shape:
  "multi_index (probe_table reps grid datasets)"
  "nlevels (probe_table reps grid datasets) = 3"
  "columns (probe_table reps grid datasets) = [''rank'', ''duration'']"
  "rows (probe_table reps grid datasets)
     = map (\<lambda>key. (key, [Num (5 / 2), Num 5])) (sweep_keys reps grid datasets)"
  by (simp_all add: probe_table_def)

lemma probe_mean_over_datasets:
  "rows (group_mean [1] (probe_table 3 (param_grid (parameters swept_sweeper))
            [''fridg'', ''water'']))
     = map (\<lambda>perm. ([LParams perm], [Num (5 / 2), Num 5])) (param_grid (parameters swept_sweeper))"
  by (simp add: group_mean_def group_keys_def group_cells_def project_def probe_table_def
      sweep_keys_def swept_grid grid_point_eq pd_mean_def upt_rec)

lemma probe_durations:
  "pd_max (column_cells (probe_table 3 (param_grid (parameters swept_sweeper))
             [''fridg'', ''water'']) 1) = Num 5"
  "pd_min (column_cells (probe_table 3 (param_grid (parameters swept_sweeper))
             [''fridg'', ''water'']) 1) = Num 5"
  by (simp_all add: column_cells_def probe_table_def sweep_keys_def swept_grid pd_max_def
      pd_min_def upt_rec)

section \<open>Claims about the sweep and the notebook\<close>

text \<open>
  Claim C2. A run of the notebook on which every call returns is, in this order: the two
  \<^verbatim>\<open>unzip_url\<close> calls that make \<^verbatim>\<open>DATA_PATHS\<close>; the sweep over the six-point grid that
  \<^verbatim>\<open>update_parameters\<close> has set up, on these two paths, with \<^verbatim>\<open>REPS\<close> repetitions and
  \<^verbatim>\<open>retrieval_rank\<close> as the metric function, which yields one dataframe with one entry per
  repetition, parameter combination and dataset; \<^verbatim>\<open>clean_sweeper_df\<close> on that dataframe; and
  only then, each in the world the one before left, the bar plot of the mean ranks, the
  sweeper plot, and the four \<^verbatim>\<open>sb.glue\<close> calls, all on the cleaned dataframe.
\<close>

theorem notebook_pipeline_order:
  assumes unzip1: "unzip_url X (fridge_objects_path X) True w0 = (Inr p1, w1)"
    and unzip2: "unzip_url X (fridge_objects_watermark_path X) True w1 = (Inr p2, w2)"
    and sweep: "sweeper_run (train X) swept_sweeper [p1, p2] REPS (retrieval_rank L) w2
                  = (Inr df, w3)"
    and clean: "clean_sweeper_df X df w3 = (Inr df', w4)"
    and mean12: "df_mean_level 1 [2] df' = Inr m12"
    and rank12: "df_getitem ''rank'' m12 = Inr s12"
    and bar: "plot_bar X s12 w4 = (Inr (), w5)"
    and mean1: "df_mean_level 1 [] df' = Inr m1"
    and plot: "plot_sweeper_df X m1 ''rank'' w5 = (Inr (), w6)"
    and glue1: "glue X ''nr_elements'' (SInt (df_len df')) w6 = (Inr (), w7)"
    and rank1: "df_getitem ''rank'' m1 = Inr s1"
    and glue2: "glue X ''ranks'' (SFloats (series_list s1)) w7 = (Inr (), w8)"
    and hi: "series_attr ''duration'' (df_max df') = Inr hi"
    and glue3: "glue X ''max_duration'' (SFloat hi) w8 = (Inr (), w9)"
    and lo: "series_attr ''duration'' (df_min df') = Inr lo"
    and glue4: "glue X ''min_duration'' (SFloat lo) w9 = (Inr (), w10)"
  shows "notebook X L w0 = (Inr df', w10)
       \<and> param_grid (parameters swept_sweeper) =
           [grid_point (1 / 1000) 300, grid_point (1 / 1000) 500,
            grid_point (1 / 10000) 300, grid_point (1 / 10000) 500,
            grid_point (1 / 100000) 300, grid_point (1 / 100000) 500]
       \<and> map fst (rows df) = sweep_keys (nat REPS) (param_grid (parameters swept_sweeper)) [p1, p2]"
proof -
  have run: "cell_run X L [p1, p2] w2 = (Inr df, w3)"
    using sweep by (simp add: cell_run_def)
  have means12: "cell_mean_over_runs df' w4 = (Inr m12, w4)"
    by (simp only: cell_mean_over_runs_def mean12 lift_apply sum.case)
  have plotted12: "cell_plot_rank X df' w4 = (Inr (), w5)"
    by (simp only: cell_plot_rank_def mean12 rank12 seq_lift_value bar)
  have means1: "cell_mean_over_datasets df' w5 = (Inr m1, w5)"
    by (simp only: cell_mean_over_datasets_def mean1 lift_apply sum.case)
  have plotted1: "cell_plot_sweeper X df' w5 = (Inr (), w6)"
    by (simp only: cell_plot_sweeper_def mean1 seq_lift_value plot)
  have glued: "cell_glue X df' w6 = (Inr (), w10)"
    by (simp only: cell_glue_def mean1 rank1 hi lo seq_lift_value seq_apply
        glue1 glue2 glue3 glue4 prod.case sum.case)
  have post: "post_process X df' w4 = (Inr (), w10)"
    by (simp only: post_process_apply seq_apply means12 plotted12 means1 plotted1 glued prod.case sum.case)
  have "notebook X L w0 = (Inr df', w10)"
    by (simp only: notebook_apply seq_apply cell_data_paths_value [OF unzip1 unzip2] run clean
        post ret_apply prod.case sum.case)
  moreover have "map fst (rows df)
      = sweep_keys (nat REPS) (param_grid (parameters swept_sweeper)) [p1, p2]"
    using cell_run_keys [OF run] by (simp add: REPS_def)
  ultimately show ?thesis using swept_grid by (intro conjI)
qed

text \<open>
  The recording library: the log starts with the two downloads, goes on with the 36 entries
  of six calls each, and ends with the cleaning, the two plots and the four glued values.
\<close>

theorem notebook_pipeline_order_witness:
  "notebook probe_externals (probe_similarity 2) []
     = (Inr (probe_table 3 (param_grid (parameters swept_sweeper)) [''fridg'', ''water'']),
        [Unzipped ''fridge.zip'', Unzipped ''watermark.zip'']
        @ probe_log 3 (param_grid (parameters swept_sweeper)) [''fridg'', ''water'']
        @ [Cleaned, PlottedBar, PlottedSweeper ''rank'',
           Glued ''nr_elements'' (SInt 36),
           Glued ''ranks''
             (SFloats [Num (5 / 2), Num (5 / 2), Num (5 / 2), Num (5 / 2), Num (5 / 2), Num (5 / 2)]),
           Glued ''max_duration'' (SFloat (Num 5)),
           Glued ''min_duration'' (SFloat (Num 5))])
   \<and> take 7 (probe_log 3 (param_grid (parameters swept_sweeper)) [''fridg'', ''water''])
     = [Trained ''fridg'' (grid_point (1 / 1000) 300), BuiltSets 7 1000 99, Featurized Valid 512,
        Distances 0, Distances 1, Ranked [0, 1],
        Trained ''water'' (grid_point (1 / 1000) 300)]
   \<and> length (probe_log 3 (param_grid (parameters swept_sweeper)) [''fridg'', ''water'']) = 216"
proof -
  let ?G = "param_grid (parameters swept_sweeper)"
  let ?T = "probe_table 3 ?G [''fridg'', ''water'']"
  let ?w2 = "[Unzipped ''fridge.zip'', Unzipped ''watermark.zip'']"
  let ?w4 = "(?w2 @ probe_log 3 ?G [''fridg'', ''water'']) @ [Cleaned]"
  let ?s12 = "\<lparr> s_nlevels = 2,
      s_rows = map (\<lambda>r. (fst r, snd r ! 0)) (rows (group_mean [1, 2] ?T)) \<rparr>"
  let ?s1 = "\<lparr> s_nlevels = 1,
      s_rows = map (\<lambda>r. (fst r, snd r ! 0)) (rows (group_mean [1] ?T)) \<rparr>"
  have u1: "unzip_url probe_externals (fridge_objects_path probe_externals) True []
      = (Inr ''fridg'', [Unzipped ''fridge.zip''])"
    by (simp add: probe_unzip probe_urls)
  have u2: "unzip_url probe_externals (fridge_objects_watermark_path probe_externals) True
        [Unzipped ''fridge.zip''] = (Inr ''water'', ?w2)"
    by (simp add: probe_unzip probe_urls)
  note run = probe_sweep [of "[''fridg'', ''water'']" ?w2]
  note clean = probe_clean [of ?T "?w2 @ probe_log 3 ?G [''fridg'', ''water'']"]
  have m12: "df_mean_level 1 [2] ?T = Inr (group_mean [1, 2] ?T)"
    by (intro mean_level_multi) (simp_all add: probe_table_shape)
  have m1: "df_mean_level 1 [] ?T = Inr (group_mean [1] ?T)"
    by (intro mean_level_multi) (simp_all add: probe_table_shape)
  have r12: "df_getitem ''rank'' (group_mean [1, 2] ?T) = Inr ?s12"
    using getitem_rank [of "group_mean [1, 2] ?T"]
    by (simp add: group_mean_shape probe_table_shape)
  have r1: "df_getitem ''rank'' (group_mean [1] ?T) = Inr ?s1"
    using getitem_rank [of "group_mean [1] ?T"]
    by (simp add: group_mean_shape probe_table_shape)
  note dur = duration_attr [OF probe_table_shape(3), of 3 ?G "[''fridg'', ''water'']"]
  have order: "notebook probe_externals (probe_similarity 2) []
      = (Inr ?T,
         ((((((?w4 @ [PlottedBar]) @ [PlottedSweeper ''rank''])
           @ [Glued ''nr_elements'' (SInt (df_len ?T))])
           @ [Glued ''ranks'' (SFloats (series_list ?s1))])
           @ [Glued ''max_duration'' (SFloat (pd_max (column_cells ?T 1)))])
           @ [Glued ''min_duration'' (SFloat (pd_min (column_cells ?T 1)))]))"
    using notebook_pipeline_order [OF u1 u2 run clean m12 r12 probe_plots(1) m1 probe_plots(2) probe_plots(3)
        r1 probe_plots(3) dur(1) probe_plots(3) dur(2) probe_plots(3)]
    by (elim conjE)
  have count: "df_len ?T = 36"
    by (simp add: df_len_def probe_table_shape length_sweep_keys swept_grid)
  have "series_list ?s1 = map (\<lambda>perm. Num (5 / 2)) ?G"
    by (simp only: rank_series_list probe_mean_over_datasets) (simp add: comp_def)
  then have ranks: "series_list ?s1
      = [Num (5 / 2), Num (5 / 2), Num (5 / 2), Num (5 / 2), Num (5 / 2), Num (5 / 2)]"
    by (simp add: swept_grid)
  note glued = count ranks
  have log: "take 7 (probe_log 3 ?G [''fridg'', ''water''])
     = [Trained ''fridg'' (grid_point (1 / 1000) 300), BuiltSets 7 1000 99, Featurized Valid 512,
        Distances 0, Distances 1, Ranked [0, 1],
        Trained ''water'' (grid_point (1 / 1000) 300)]"
    "length (probe_log 3 ?G [''fridg'', ''water'']) = 216"
    by (simp_all add: probe_log_def swept_grid upt_rec)
  from order log show ?thesis
    by (simp only: glued probe_durations append_assoc append.simps HOL.simp_thms)
qed
text \<open>
  Claim C3. The dataframe that the sweep returns has a three-level MultiIndex (repetition,
  parameter permutation, dataset) and the columns \<^verbatim>\<open>rank\<close> and \<^verbatim>\<open>duration\<close>, one cell of
  each per row. The notebook aggregates what \<^verbatim>\<open>clean_sweeper_df\<close> makes of it; that helper
  is not defined in the notebook, and the dataframe it returns is taken to have the index
  structure and the columns of the one it was given. On that dataframe every aggregation
  of the cells is defined: the mean over the levels (1, 2) and over the level 1, the
  selection of \<^verbatim>\<open>rank\<close> from both, and \<^verbatim>\<open>duration\<close> of the column maxima and minima, so
  that each cell is nothing but its external calls on these values. This needs all three
  levels: on an index of fewer the mean over (1, 2) raises, IndexError on a MultiIndex and
  ValueError on a flat Index.
\<close>

theorem sweep_results_index_structure:
  assumes run: "cell_run X L paths w = (Inr df, w1)"
    and clean: "clean_sweeper_df X df w1 = (Inr df', w2)"
    and kept: "multi_index df' = multi_index df \<and> nlevels df' = nlevels df
                 \<and> columns df' = columns df"
  shows "multi_index df \<and> nlevels df = 3
       \<and> columns df = [''rank'', ''duration'']
       \<and> (\<forall>row \<in> set (rows df).
            length (snd row) = 2
            \<and> (\<exists>rep perm dataset.
                  fst row = [LInt (int rep), LParams perm, LStr dataset]
                  \<and> int rep < REPS
                  \<and> perm \<in> set (param_grid (parameters swept_sweeper))
                  \<and> dataset \<in> set paths))
       \<and> cell_mean_over_runs df' v = (Inr (group_mean [1, 2] df'), v)
       \<and> nlevels (group_mean [1, 2] df') = 2
       \<and> cell_plot_rank X df' v
           = plot_bar X \<lparr> s_nlevels = 2,
                           s_rows = map (\<lambda>r. (fst r, snd r ! 0)) (rows (group_mean [1, 2] df')) \<rparr> v
       \<and> cell_mean_over_datasets df' v = (Inr (group_mean [1] df'), v)
       \<and> nlevels (group_mean [1] df') = 1
       \<and> cell_plot_sweeper X df' v = plot_sweeper_df X (group_mean [1] df') ''rank'' v
       \<and> cell_glue X df' v =
           seq (glue X ''nr_elements'' (SInt (int (length (rows df'))))) (\<lambda>_.
           seq (glue X ''ranks''
                  (SFloats (map (\<lambda>r. snd r ! 0) (rows (group_mean [1] df'))))) (\<lambda>_.
           seq (glue X ''max_duration'' (SFloat (pd_max (column_cells df' 1)))) (\<lambda>_.
           glue X ''min_duration'' (SFloat (pd_min (column_cells df' 1)))))) v
       \<and> (\<forall>d. nlevels d < 3 \<longrightarrow>
            cell_mean_over_runs d v
              = (Inl (if multi_index d then IndexError else ValueError), v))"
proof -
  note shape = cell_run_shape [OF run]
  have rows_ok: "length (snd row) = 2
      \<and> (\<exists>rep perm dataset.
            fst row = [LInt (int rep), LParams perm, LStr dataset]
            \<and> int rep < REPS
            \<and> perm \<in> set (param_grid (parameters swept_sweeper))
            \<and> dataset \<in> set paths)" if "row \<in> set (rows df)" for row
  proof -
    from that have "(fst row, length (snd row))
        \<in> set (map (\<lambda>row. (fst row, length (snd row))) (rows df))" by force
    then have "(fst row, length (snd row))
        \<in> set (map (\<lambda>key. (key, 2)) (sweep_keys 3 (param_grid (parameters swept_sweeper)) paths))"
      by (simp only: shape(3))
    then have len: "length (snd row) = 2"
      and key: "fst row \<in> set (sweep_keys 3 (param_grid (parameters swept_sweeper)) paths)"
      by auto
    from key obtain rep perm dataset where "rep < 3"
      and "perm \<in> set (param_grid (parameters swept_sweeper))" and "dataset \<in> set paths"
      and "fst row = [LInt (int rep), LParams perm, LStr dataset]"
      unfolding sweep_keys_member by blast
    with len show ?thesis by (auto simp: REPS_def)
  qed
  from kept shape have multi': "multi_index df'" and levels': "nlevels df' = 3"
    and cols': "columns df' = [''rank'', ''duration'']" by simp_all
  note cells = cells_defined [OF multi' levels' cols']
  have n12: "nlevels (group_mean [1, 2] df') = 2" and n1: "nlevels (group_mean [1] df') = 1"
    by (simp_all add: group_mean_shape)
  have fewer: "\<forall>d. nlevels d < 3 \<longrightarrow>
      cell_mean_over_runs d v = (Inl (if multi_index d then IndexError else ValueError), v)"
    by (intro allI impI) (rule mean_over_runs_undefined)
  have entries: "\<forall>row \<in> set (rows df).
      length (snd row) = 2
      \<and> (\<exists>rep perm dataset.
            fst row = [LInt (int rep), LParams perm, LStr dataset]
            \<and> int rep < REPS
            \<and> perm \<in> set (param_grid (parameters swept_sweeper))
            \<and> dataset \<in> set paths)"
    using rows_ok by blast
  show ?thesis
    by (intro conjI) (fact shape(4) shape(1) shape(2) entries cells n12 n1 fewer)+
qed
text \<open>
  The table of the recording library's sweep, which its cleaning returns as it is. The
  means over (1, 2) and over 1 of that table have two levels and a flat index.
\<close>

theorem sweep_results_index_structure_witness:
  "cell_run probe_externals (probe_similarity 2) [''fridg'', ''water''] []
     = (Inr (probe_table 3 (param_grid (parameters swept_sweeper)) [''fridg'', ''water'']),
        probe_log 3 (param_grid (parameters swept_sweeper)) [''fridg'', ''water''])
   \<and> multi_index (probe_table 3 (param_grid (parameters swept_sweeper)) [''fridg'', ''water''])
   \<and> nlevels (probe_table 3 (param_grid (parameters swept_sweeper)) [''fridg'', ''water'']) = 3
   \<and> cell_plot_rank probe_externals
         (probe_table 3 (param_grid (parameters swept_sweeper)) [''fridg'', ''water'']) []
     = (Inr (), [PlottedBar])
   \<and> cell_plot_sweeper probe_externals
         (probe_table 3 (param_grid (parameters swept_sweeper)) [''fridg'', ''water'']) []
     = (Inr (), [PlottedSweeper ''rank''])
   \<and> cell_glue probe_externals
         (probe_table 3 (param_grid (parameters swept_sweeper)) [''fridg'', ''water'']) []
     = (Inr (),
        [Glued ''nr_elements'' (SInt 36),
         Glued ''ranks''
           (SFloats [Num (5 / 2), Num (5 / 2), Num (5 / 2), Num (5 / 2), Num (5 / 2), Num (5 / 2)]),
         Glued ''max_duration'' (SFloat (Num 5)),
         Glued ''min_duration'' (SFloat (Num 5))])
   \<and> cell_mean_over_runs
         (group_mean [1, 2]
            (probe_table 3 (param_grid (parameters swept_sweeper)) [''fridg'', ''water''])) []
     = (Inl IndexError, [] :: event list)
   \<and> cell_mean_over_runs
         (group_mean [1]
            (probe_table 3 (param_grid (parameters swept_sweeper)) [''fridg'', ''water''])) []
     = (Inl ValueError, [] :: event list)"
proof -
  let ?G = "param_grid (parameters swept_sweeper)"
  let ?T = "probe_table 3 ?G [''fridg'', ''water'']"
  have run: "cell_run probe_externals (probe_similarity 2) [''fridg'', ''water''] []
      = (Inr ?T, probe_log 3 ?G [''fridg'', ''water''])"
    using probe_cell_run [of "[''fridg'', ''water'']" "[]"] by simp
  note clean = probe_clean [of ?T "probe_log 3 ?G [''fridg'', ''water'']"]
  have kept: "multi_index ?T = multi_index ?T \<and> nlevels ?T = nlevels ?T
      \<and> columns ?T = columns ?T" by simp
  note facts = sweep_results_index_structure [OF run clean kept, where v = "[]"]
  from facts have multi: "multi_index ?T"
    by (elim conjE)
  from facts have levels: "nlevels ?T = 3"
    by (elim conjE)
  from facts have "cell_plot_rank probe_externals ?T []
      = plot_bar probe_externals
          \<lparr> s_nlevels = 2,
            s_rows = map (\<lambda>r. (fst r, snd r ! 0)) (rows (group_mean [1, 2] ?T)) \<rparr> []"
    by (elim conjE)
  then have bar: "cell_plot_rank probe_externals ?T [] = (Inr (), [PlottedBar])"
    by (simp only: probe_plots append.simps)
  from facts have "cell_plot_sweeper probe_externals ?T []
      = plot_sweeper_df probe_externals (group_mean [1] ?T) ''rank'' []"
    by (elim conjE)
  then have plot: "cell_plot_sweeper probe_externals ?T [] = (Inr (), [PlottedSweeper ''rank''])"
    by (simp only: probe_plots append.simps)
  have count: "int (length (rows ?T)) = 36"
    by (simp add: probe_table_shape length_sweep_keys swept_grid)
  have "map (\<lambda>r. snd r ! 0) (rows (group_mean [1] ?T)) = map (\<lambda>perm. Num (5 / 2)) ?G"
    by (simp only: probe_mean_over_datasets) (simp add: comp_def)
  then have ranks: "map (\<lambda>r. snd r ! 0) (rows (group_mean [1] ?T))
      = [Num (5 / 2), Num (5 / 2), Num (5 / 2), Num (5 / 2), Num (5 / 2), Num (5 / 2)]"
    by (simp add: swept_grid)
  from facts have "cell_glue probe_externals ?T [] =
      seq (glue probe_externals ''nr_elements'' (SInt (int (length (rows ?T))))) (\<lambda>_.
      seq (glue probe_externals ''ranks''
             (SFloats (map (\<lambda>r. snd r ! 0) (rows (group_mean [1] ?T))))) (\<lambda>_.
      seq (glue probe_externals ''max_duration'' (SFloat (pd_max (column_cells ?T 1)))) (\<lambda>_.
      glue probe_externals ''min_duration'' (SFloat (pd_min (column_cells ?T 1)))))) []"
    by (elim conjE)
  then have glued: "cell_glue probe_externals ?T [] =
      (Inr (),
        [Glued ''nr_elements'' (SInt 36),
         Glued ''ranks''
           (SFloats [Num (5 / 2), Num (5 / 2), Num (5 / 2), Num (5 / 2), Num (5 / 2), Num (5 / 2)]),
         Glued ''max_duration'' (SFloat (Num 5)),
         Glued ''min_duration'' (SFloat (Num 5))])"
    by (simp only: count ranks probe_durations seq_apply probe_plots prod.case sum.case
        append.simps)
  from facts have fewer: "\<forall>d. nlevels d < 3 \<longrightarrow>
      cell_mean_over_runs d [] = (Inl (if multi_index d then IndexError else ValueError),
        [] :: event list)"
    by (elim conjE)
  have two: "cell_mean_over_runs (group_mean [1, 2] ?T) [] = (Inl IndexError, [] :: event list)"
    using fewer [rule_format, of "group_mean [1, 2] ?T"] by (simp add: group_mean_shape)
  have one: "cell_mean_over_runs (group_mean [1] ?T) [] = (Inl ValueError, [] :: event list)"
    using fewer [rule_format, of "group_mean [1] ?T"] by (simp add: group_mean_shape)
  from run multi levels bar plot glued two one show ?thesis by (intro conjI)
qed
text \<open>
  Claim C4. After \<^verbatim>\<open>update_parameters\<close> the sweeper holds the four swept lists
  \<^verbatim>\<open>learning_rate = [1e-3, 1e-4, 1e-5]\<close>, \<^verbatim>\<open>im_size = [300, 500]\<close>, \<^verbatim>\<open>epochs = [16]\<close>,
  \<^verbatim>\<open>dropout = [0]\<close> and one value for every other parameter, so the grid has
  3 * 2 * 1 * 1 = 6 permutations. With \<^verbatim>\<open>REPS = 3\<close> a sweep over two datasets that returns
  has 36 entries, one per repetition, permutation and dataset: each permutation is
  trained and evaluated three times on each of the two datasets.
\<close>

theorem sweep_grid_and_repetitions:
  assumes "cell_run X L [d1, d2] w = (Inr df, w')"
  shows "parameters swept_sweeper =
           [(''learning_rate'', LEARNING_RATES),
            (''epochs'', EPOCHS),
            (''batch_size'', [PInt 16]),
            (''im_size'', IM_SIZES),
            (''architecture'', [PEnum ''Architecture.resnet18'']),
            (''transform'', [PBool True]),
            (''dropout'', DROPOUTS),
            (''weight_decay'', [PFloat (1 / 100)]),
            (''training_schedule'', [PEnum ''TrainingSchedule.head_first_then_body'']),
            (''discriminative_lr'', [PBool False]),
            (''one_cycle_policy'', [PBool True])]
       \<and> LEARNING_RATES = [PFloat (1 / 1000), PFloat (1 / 10000), PFloat (1 / 100000)]
       \<and> IM_SIZES = [PInt 300, PInt 500] \<and> EPOCHS = [PInt 16] \<and> DROPOUTS = [PInt 0]
       \<and> param_grid (parameters swept_sweeper) =
           [grid_point (1 / 1000) 300, grid_point (1 / 1000) 500,
            grid_point (1 / 10000) 300, grid_point (1 / 10000) 500,
            grid_point (1 / 100000) 300, grid_point (1 / 100000) 500]
       \<and> length (param_grid (parameters swept_sweeper)) = 3 * 2 * 1 * 1
       \<and> REPS = 3
       \<and> map fst (rows df) = sweep_keys 3 (param_grid (parameters swept_sweeper)) [d1, d2]
       \<and> length (rows df) = 3 * 6 * 2
       \<and> (d1 \<noteq> d2 \<longrightarrow>
            (\<forall>perm \<in> set (param_grid (parameters swept_sweeper)). \<forall>d \<in> {d1, d2}.
               length (filter (\<lambda>row. tl (fst row) = [LParams perm, LStr d]) (rows df)) = 3))"
proof -
  let ?grid = "param_grid (parameters swept_sweeper)"
  have keys: "map fst (rows df) = sweep_keys 3 ?grid [d1, d2]"
    by (rule cell_run_keys [OF assms])
  have "length (map fst (rows df)) = 36"
    by (simp only: keys length_sweep_keys) (simp add: swept_grid)
  then have len: "length (rows df) = 3 * 6 * 2" by simp
  have count: "length (filter (\<lambda>row. tl (fst row) = [LParams perm, LStr d]) (rows df)) = 3"
    if "d1 \<noteq> d2" and "perm \<in> set ?grid" and "d \<in> {d1, d2}" for perm d
  proof -
    have "length (filter (\<lambda>row. tl (fst row) = [LParams perm, LStr d]) (rows df))
        = length (filter (\<lambda>key. tl key = [LParams perm, LStr d]) (map fst (rows df)))"
      by (simp add: filter_map comp_def)
    also have "\<dots> = 3 * (count_list ?grid perm * count_list [d1, d2] d)"
      by (simp only: keys count_sweep_keys)
    also have "count_list ?grid perm = 1"
      using that(2) by (auto simp: swept_grid grid_point_eq)
    also have "count_list [d1, d2] d = 1"
      using that(1,3) by auto
    finally show ?thesis by simp
  qed
  show ?thesis
    using swept_parameters swept_grid keys len count
    by (simp add: LEARNING_RATES_def IM_SIZES_def EPOCHS_def DROPOUTS_def REPS_def)
qed

text \<open>
  The recording library on two distinct paths: 36 entries, three of them for the
  learning rate 1e-4 with image size 500 on the second dataset.
\<close>

theorem sweep_grid_and_repetitions_witness:
  "cell_run probe_externals (probe_similarity 2) [''fridg'', ''water''] []
     = (Inr (probe_table 3 (param_grid (parameters swept_sweeper)) [''fridg'', ''water'']),
        probe_log 3 (param_grid (parameters swept_sweeper)) [''fridg'', ''water''])
   \<and> length (rows (probe_table 3 (param_grid (parameters swept_sweeper)) [''fridg'', ''water''])) = 36
   \<and> length (filter (\<lambda>row. tl (fst row) = [LParams (grid_point (1 / 10000) 500), LStr ''water''])
        (rows (probe_table 3 (param_grid (parameters swept_sweeper)) [''fridg'', ''water'']))) = 3"
proof -
  have run: "cell_run probe_externals (probe_similarity 2) [''fridg'', ''water''] []
     = (Inr (probe_table 3 (param_grid (parameters swept_sweeper)) [''fridg'', ''water'']),
        probe_log 3 (param_grid (parameters swept_sweeper)) [''fridg'', ''water''])"
    using probe_cell_run [of "[''fridg'', ''water'']" "[]"] by simp
  have differ: "''fridg'' \<noteq> ''water''" by simp
  have member: "grid_point (1 / 10000) 500 \<in> set (param_grid (parameters swept_sweeper))"
    by (simp add: swept_grid)
  note facts = sweep_grid_and_repetitions [OF run]
  from facts
  have len: "length (rows (probe_table 3 (param_grid (parameters swept_sweeper))
      [''fridg'', ''water''])) = 3 * 6 * 2"
    by (elim conjE)
  from facts differ
  have "\<forall>perm \<in> set (param_grid (parameters swept_sweeper)). \<forall>d \<in> {''fridg'', ''water''}.
      length (filter (\<lambda>row. tl (fst row) = [LParams perm, LStr d])
        (rows (probe_table 3 (param_grid (parameters swept_sweeper)) [''fridg'', ''water'']))) = 3"
    by (elim conjE impE)
  with member
  have count: "length (filter (\<lambda>row. tl (fst row) = [LParams (grid_point (1 / 10000) 500), LStr ''water''])
      (rows (probe_table 3 (param_grid (parameters swept_sweeper)) [''fridg'', ''water'']))) = 3"
    by blast
  from len have "length (rows (probe_table 3 (param_grid (parameters swept_sweeper))
      [''fridg'', ''water''])) = 36" by simp
  with run count show ?thesis by (intro conjI)
qed

text \<open>
  Claim C5. Nothing in the notebook catches an exception. Whatever \<^verbatim>\<open>sweeper.run\<close> raises,
  a KeyboardInterrupt included, ends the run of the notebook with that exception in the
  world the sweep left, so that no later cell runs; and whatever a helper raises inside
  \<^verbatim>\<open>retrieval_rank\<close> (building the sets, computing the features, computing the distances
  of some set, ranking) is raised by \<^verbatim>\<open>retrieval_rank\<close> at once.
\<close>

theorem exceptions_propagate_unhandled:
  "(cell_data_paths X v0 = (Inr paths, v1)
      \<and> sweeper_run (train X) swept_sweeper paths REPS (retrieval_rank L) v1 = (Inl e, v2)
      \<longrightarrow> notebook X L v0 = (Inl e, v2))
   \<and> (comparative_set_builder L (valid_ds (data learn)) 1000 99 w = (Inl e, w1)
      \<longrightarrow> retrieval_rank L learn w = (Inl e, w1))
   \<and> (comparative_set_builder L (valid_ds (data learn)) 1000 99 w = (Inr sets, w1)
      \<and> embedding_layer learn = Inr layer
      \<and> compute_features_learner L (data learn) Valid learn layer w1 = (Inl e, w2)
      \<longrightarrow> retrieval_rank L learn w = (Inl e, w2))
   \<and> (comparative_set_builder L (valid_ds (data learn)) 1000 99 w = (Inr sets, w1)
      \<and> embedding_layer learn = Inr layer
      \<and> compute_features_learner L (data learn) Valid learn layer w1 = (Inr ((k, v) # features), w2)
      \<and> length v = 512
      \<and> for_each sets (\<lambda>cs. compute_distances L cs ((k, v) # features)) w2 = (Inl e, w3)
      \<longrightarrow> retrieval_rank L learn w = (Inl e, w3))
   \<and> (comparative_set_builder L (valid_ds (data learn)) 1000 99 w = (Inr sets, w1)
      \<and> embedding_layer learn = Inr layer
      \<and> compute_features_learner L (data learn) Valid learn layer w1 = (Inr ((k, v) # features), w2)
      \<and> length v = 512
      \<and> for_each sets (\<lambda>cs. compute_distances L cs ((k, v) # features)) w2 = (Inr (), w3)
      \<and> positive_image_ranks L sets w3 = (Inl e, w4)
      \<longrightarrow> retrieval_rank L learn w = (Inl e, w4))"
  by (simp add: notebook_apply cell_run_def retrieval_rank_apply seq_apply lift_apply
      assert_feature_length_apply)
text \<open>
  The interrupt key pressed during the first training, and during each of the four helper
  calls of the metric: every time the log ends where the key was pressed.
\<close>

theorem exceptions_propagate_unhandled_witness:
  "notebook (probe_externals \<lparr> train := \<lambda>path perm. raise KeyboardInterrupt \<rparr>)
       (probe_similarity 2) []
     = (Inl KeyboardInterrupt, [Unzipped ''fridge.zip'', Unzipped ''watermark.zip''])
   \<and> retrieval_rank
       ((probe_similarity 2) \<lparr> comparative_set_builder := \<lambda>ds a b. raise KeyboardInterrupt \<rparr>)
       (probe_learner 512) []
     = (Inl KeyboardInterrupt, [])
   \<and> retrieval_rank
       ((probe_similarity 2) \<lparr> compute_features_learner := \<lambda>d t l layer. raise KeyboardInterrupt \<rparr>)
       (probe_learner 512) []
     = (Inl KeyboardInterrupt, [BuiltSets 7 1000 99])
   \<and> retrieval_rank
       ((probe_similarity 2) \<lparr> compute_distances := \<lambda>cs fs.
           if cs = 1 then raise KeyboardInterrupt else probe_call (Distances cs) () \<rparr>)
       (probe_learner 512) []
     = (Inl KeyboardInterrupt, [BuiltSets 7 1000 99, Featurized Valid 512, Distances 0])
   \<and> retrieval_rank
       ((probe_similarity 2) \<lparr> positive_image_ranks := \<lambda>sets. raise KeyboardInterrupt \<rparr>)
       (probe_learner 512) []
     = (Inl KeyboardInterrupt,
        [BuiltSets 7 1000 99, Featurized Valid 512, Distances 0, Distances 1])"
proof -
  let ?X = "probe_externals \<lparr> train := \<lambda>path perm. raise KeyboardInterrupt \<rparr>"
  let ?L1 = "(probe_similarity 2) \<lparr> comparative_set_builder := \<lambda>ds a b. raise KeyboardInterrupt \<rparr>"
  let ?L2 = "(probe_similarity 2)
      \<lparr> compute_features_learner := \<lambda>d t l layer. raise KeyboardInterrupt \<rparr>"
  let ?L3 = "(probe_similarity 2) \<lparr> compute_distances := \<lambda>cs fs.
      if cs = 1 then raise KeyboardInterrupt else probe_call (Distances cs) () \<rparr>"
  let ?L4 = "(probe_similarity 2) \<lparr> positive_image_ranks := \<lambda>sets. raise KeyboardInterrupt \<rparr>"
  let ?learn = "probe_learner 512"
  let ?fs = "[(''r.jpg'', 0 # replicate 512 (0::rat))]"
  note defs = probe_similarity_def probe_externals_def probe_call_apply raise_apply seq_apply
    ret_apply probe_valid_ds upt_rec
  have paths: "cell_data_paths ?X []
      = (Inr [''fridg'', ''water''], [Unzipped ''fridge.zip'', Unzipped ''watermark.zip''])"
    by (simp add: cell_data_paths_def defs cong: run_congs)
  have sweep: "sweeper_run (train ?X) swept_sweeper [''fridg'', ''water''] REPS
        (retrieval_rank (probe_similarity 2)) [Unzipped ''fridge.zip'', Unzipped ''watermark.zip'']
      = (Inl KeyboardInterrupt, [Unzipped ''fridge.zip'', Unzipped ''watermark.zip''])"
    by (simp add: sweeper_run_def sweep_one_def REPS_def swept_grid defs cong: run_congs)
  have a: "notebook ?X (probe_similarity 2) []
      = (Inl KeyboardInterrupt, [Unzipped ''fridge.zip'', Unzipped ''watermark.zip''])"
    using exceptions_propagate_unhandled [where X = ?X and L = "probe_similarity 2" and ?v0.0 = "[]"
        and paths = "[''fridg'', ''water'']" and e = KeyboardInterrupt
        and ?v1.0 = "[Unzipped ''fridge.zip'', Unzipped ''watermark.zip'']"
        and ?v2.0 = "[Unzipped ''fridge.zip'', Unzipped ''watermark.zip'']"]
      paths sweep by blast
  have s1: "comparative_set_builder ?L1 (valid_ds (data ?learn)) 1000 99 []
      = (Inl KeyboardInterrupt, [])"
    by (simp add: defs)
  have b1: "retrieval_rank ?L1 ?learn [] = (Inl KeyboardInterrupt, [])"
    using exceptions_propagate_unhandled [where L = ?L1 and learn = ?learn and w = "[]" and e = KeyboardInterrupt
        and ?w1.0 = "[]"] s1 by blast
  have s2: "comparative_set_builder ?L2 (valid_ds (data ?learn)) 1000 99 []
      = (Inr [0, 1], [BuiltSets 7 1000 99])"
    "compute_features_learner ?L2 (data ?learn) Valid ?learn 512 [BuiltSets 7 1000 99]
      = (Inl KeyboardInterrupt, [BuiltSets 7 1000 99])"
    by (simp_all add: defs)
  have b2: "retrieval_rank ?L2 ?learn [] = (Inl KeyboardInterrupt, [BuiltSets 7 1000 99])"
    using exceptions_propagate_unhandled [where L = ?L2 and learn = ?learn and w = "[]" and e = KeyboardInterrupt
        and sets = "[0, 1]" and ?w1.0 = "[BuiltSets 7 1000 99]" and layer = 512
        and ?w2.0 = "[BuiltSets 7 1000 99]"] s2 probe_layer [of 512] by blast
  have s3: "comparative_set_builder ?L3 (valid_ds (data ?learn)) 1000 99 []
      = (Inr [0, 1], [BuiltSets 7 1000 99])"
    "compute_features_learner ?L3 (data ?learn) Valid ?learn 512 [BuiltSets 7 1000 99]
      = (Inr ((''q.jpg'', replicate 512 0) # ?fs), [BuiltSets 7 1000 99, Featurized Valid 512])"
    "for_each [0, 1] (\<lambda>cs. compute_distances ?L3 cs ((''q.jpg'', replicate 512 0) # ?fs))
        [BuiltSets 7 1000 99, Featurized Valid 512]
      = (Inl KeyboardInterrupt, [BuiltSets 7 1000 99, Featurized Valid 512, Distances 0])"
    by (simp_all add: defs cong: run_congs)
  have width: "length (replicate 512 (0::rat)) = 512" by simp
  have b3: "retrieval_rank ?L3 ?learn []
      = (Inl KeyboardInterrupt, [BuiltSets 7 1000 99, Featurized Valid 512, Distances 0])"
    using exceptions_propagate_unhandled [where L = ?L3 and learn = ?learn and w = "[]" and e = KeyboardInterrupt
        and sets = "[0, 1]" and ?w1.0 = "[BuiltSets 7 1000 99]" and layer = 512
        and k = "''q.jpg''" and v = "replicate 512 0" and features = ?fs
        and ?w2.0 = "[BuiltSets 7 1000 99, Featurized Valid 512]"
        and ?w3.0 = "[BuiltSets 7 1000 99, Featurized Valid 512, Distances 0]"]
      s3 probe_layer [of 512] width by blast
  have s4: "comparative_set_builder ?L4 (valid_ds (data ?learn)) 1000 99 []
      = (Inr [0, 1], [BuiltSets 7 1000 99])"
    "compute_features_learner ?L4 (data ?learn) Valid ?learn 512 [BuiltSets 7 1000 99]
      = (Inr ((''q.jpg'', replicate 512 0) # ?fs), [BuiltSets 7 1000 99, Featurized Valid 512])"
    "for_each [0, 1] (\<lambda>cs. compute_distances ?L4 cs ((''q.jpg'', replicate 512 0) # ?fs))
        [BuiltSets 7 1000 99, Featurized Valid 512]
      = (Inr (), [BuiltSets 7 1000 99, Featurized Valid 512, Distances 0, Distances 1])"
    "positive_image_ranks ?L4 [0, 1]
        [BuiltSets 7 1000 99, Featurized Valid 512, Distances 0, Distances 1]
      = (Inl KeyboardInterrupt,
         [BuiltSets 7 1000 99, Featurized Valid 512, Distances 0, Distances 1])"
    by (simp_all add: defs cong: run_congs)
  have b4: "retrieval_rank ?L4 ?learn []
      = (Inl KeyboardInterrupt,
         [BuiltSets 7 1000 99, Featurized Valid 512, Distances 0, Distances 1])"
    using exceptions_propagate_unhandled [where L = ?L4 and learn = ?learn and w = "[]" and e = KeyboardInterrupt
        and sets = "[0, 1]" and ?w1.0 = "[BuiltSets 7 1000 99]" and layer = 512
        and k = "''q.jpg''" and v = "replicate 512 0" and features = ?fs
        and ?w2.0 = "[BuiltSets 7 1000 99, Featurized Valid 512]"
        and ?w3.0 = "[BuiltSets 7 1000 99, Featurized Valid 512, Distances 0, Distances 1]"
        and ?w4.0 = "[BuiltSets 7 1000 99, Featurized Valid 512, Distances 0, Distances 1]"]
      s4 probe_layer [of 512] width by blast
  from a b1 b2 b3 b4 show ?thesis by blast
qed

end
